theory Spec2Isabelle
  imports Complex_Main "HOL-Library.Monad_Syntax" "HOL-Library.AList"
begin

section \<open>JavaScript values\<close>

text \<open>
  The server (\<^verbatim>\<open>src/server/index.js\<close>) handles untyped values: request bodies parsed
  from JSON and documents read from the document store. They are modelled by the datatype
  \<open>jsval\<close>. A number is a finite value, \<open>NaN\<close> or an infinity; a finite double is a
  rational, so \<open>Fin q\<close> ranges over (a superset of) the finite doubles, and \<open>Fin 0\<close> stands
  for both zeros. Text is a \<open>string\<close>, read as a list of code units below 256. A map
  (object) is an association list in insertion order, read with \<open>map_of\<close>.

  \<open>JFunction n\<close> is the built-in function named \<open>n\<close>: a value read from JSON or from the
  store never holds one, but reading the property \<^verbatim>\<open>link\<close> of a text yields
  \<^verbatim>\<open>String.prototype.link\<close>. \<open>JTimestamp s n\<close> is the store's native timestamp object
  (seconds, nanoseconds) and \<open>JServerTimestamp\<close> is the write-time marker
  \<^verbatim>\<open>FieldValue.serverTimestamp()\<close>.
\<close>

datatype jsnum = Fin rat | NaN | PosInf | NegInf

datatype jsval =
    JUndef
  | JNull
  | JBool bool
  | JNum jsnum
  | JStr string
  | JArr "jsval list"
  | JObj "(string \<times> jsval) list"
  | JFunction string
  | JTimestamp int int
  | JServerTimestamp

type_synonym obj = "(string \<times> jsval) list"

text \<open>
  The built-in conversions that the source calls but does not define are parameters of the
  model: the numeric value of a text (\<^verbatim>\<open>Number("12")\<close>), the text of a number
  (\<^verbatim>\<open>String(12)\<close>), the conversions of the store's native objects, floating-point
  multiplication, addition and division, the date of a native timestamp
  (\<^verbatim>\<open>toDate()\<close>, giving the time value in milliseconds, or \<open>None\<close> for an invalid
  date) and the ISO-8601 text of a valid time value (\<^verbatim>\<open>toISOString()\<close>).
  Every theorem holds for every such runtime. \<open>None\<close> as the result of a conversion means
  that it throws.
\<close>

record js_runtime =
  StringToNumber :: "string \<Rightarrow> jsnum"
  NumberToString :: "jsnum \<Rightarrow> string"
  HostToString :: "jsval \<Rightarrow> string option"
  HostToNumber :: "jsval \<Rightarrow> jsnum option"
  fmul :: "jsnum \<Rightarrow> jsnum \<Rightarrow> jsnum"
  fadd :: "jsnum \<Rightarrow> jsnum \<Rightarrow> jsnum"
  fdiv :: "jsnum \<Rightarrow> jsnum \<Rightarrow> jsnum"
  TimestampToDate :: "int \<Rightarrow> int \<Rightarrow> int option"
  DateFormat :: "int \<Rightarrow> string"

text \<open>
  A runtime for evaluating examples. It agrees with JavaScript on the values that the
  examples below use: arithmetic on finite operands whose exact result is a double (small
  integers), the date of a timestamp with whole milliseconds, and the ISO-8601 text of the
  epoch. The examples hold no numeric text, convert no number to text and hold no native
  object but such a timestamp, so its other results decide nothing there.
\<close>

fun exact_mul :: "jsnum \<Rightarrow> jsnum \<Rightarrow> jsnum" where
  "exact_mul (Fin a) (Fin b) = Fin (a * b)"
| "exact_mul _ _ = NaN"

fun exact_add :: "jsnum \<Rightarrow> jsnum \<Rightarrow> jsnum" where
  "exact_add (Fin a) (Fin b) = Fin (a + b)"
| "exact_add _ _ = NaN"

fun exact_div :: "jsnum \<Rightarrow> jsnum \<Rightarrow> jsnum" where
  "exact_div (Fin a) (Fin b) = (if b = 0 then NaN else Fin (a / b))"
| "exact_div _ _ = NaN"

definition example_rt :: js_runtime where
  "example_rt =
     \<lparr> StringToNumber = (\<lambda>s. if s = [] then Fin 0 else NaN),
       NumberToString = (\<lambda>n. ''NaN''),
       HostToString = (\<lambda>v. Some ''[object Object]''),
       HostToNumber = (\<lambda>v. Some NaN),
       fmul = exact_mul,
       fadd = exact_add,
       fdiv = exact_div,
       TimestampToDate = (\<lambda>s n. Some (s * 1000 + n div 1000000)),
       DateFormat = (\<lambda>t. if t = 0 then ''1970-01-01T00:00:00.000Z'' else ''?'') \<rparr>"

subsection \<open>Tests and operators\<close>

text \<open>\<^verbatim>\<open>v == null\<close>: true of \<^verbatim>\<open>null\<close> and \<^verbatim>\<open>undefined\<close> only.\<close>

fun nullish :: "jsval \<Rightarrow> bool" where
  "nullish JUndef = True"
| "nullish JNull = True"
| "nullish _ = False"

text \<open>Truthiness, as tested by \<^verbatim>\<open>!v\<close>, \<^verbatim>\<open>a || b\<close>, \<^verbatim>\<open>a && b\<close> and \<^verbatim>\<open>Boolean\<close>.\<close>

fun truthy :: "jsval \<Rightarrow> bool" where
  "truthy JUndef = False"
| "truthy JNull = False"
| "truthy (JBool b) = b"
| "truthy (JNum (Fin q)) = (q \<noteq> 0)"
| "truthy (JNum NaN) = False"
| "truthy (JNum _) = True"
| "truthy (JStr s) = (s \<noteq> [])"
| "truthy _ = True"

text \<open>\<^verbatim>\<open>a || b\<close> yields \<open>a\<close> itself when it is truthy.\<close>

definition js_or :: "jsval \<Rightarrow> jsval \<Rightarrow> jsval" where
  "js_or a b = (if truthy a then a else b)"

text \<open>\<^verbatim>\<open>typeof v === 'object'\<close>: maps, lists, native objects and \<^verbatim>\<open>null\<close>.\<close>

fun typeof_object :: "jsval \<Rightarrow> bool" where
  "typeof_object JNull = True"
| "typeof_object (JArr xs) = True"
| "typeof_object (JObj kvs) = True"
| "typeof_object (JTimestamp s n) = True"
| "typeof_object JServerTimestamp = True"
| "typeof_object _ = False"

fun typeof_string :: "jsval \<Rightarrow> bool" where
  "typeof_string (JStr s) = True"
| "typeof_string _ = False"

fun typeof_function :: "jsval \<Rightarrow> bool" where
  "typeof_function (JFunction n) = True"
| "typeof_function _ = False"

fun isArray :: "jsval \<Rightarrow> bool" where
  "isArray (JArr xs) = True"
| "isArray _ = False"

fun isFinite :: "jsnum \<Rightarrow> bool" where
  "isFinite (Fin q) = True"
| "isFinite _ = False"

subsection \<open>Property access\<close>

text \<open>
  \<open>js_get v k\<close> is \<^verbatim>\<open>v.k\<close> on a value that is neither \<^verbatim>\<open>null\<close> nor
  \<^verbatim>\<open>undefined\<close>, for the property names that the server reads (\<^verbatim>\<open>category\<close>,
  \<^verbatim>\<open>tags\<close>, \<^verbatim>\<open>content\<close>, \<^verbatim>\<open>products\<close>, \<^verbatim>\<open>id\<close>, \<^verbatim>\<open>link\<close>,
  \<^verbatim>\<open>seconds\<close>, \<^verbatim>\<open>toDate\<close>, ...). A map yields its own property. Of the built-in
  prototypes only that of text carries one of these names (\<^verbatim>\<open>link\<close>); a function has
  its \<^verbatim>\<open>name\<close>; the native timestamp has \<^verbatim>\<open>seconds\<close>, \<^verbatim>\<open>nanoseconds\<close> and the
  method \<^verbatim>\<open>toDate\<close>.
  \<open>js_prop\<close> is the plain access \<^verbatim>\<open>v.k\<close>, which throws on \<^verbatim>\<open>null\<close> and
  \<^verbatim>\<open>undefined\<close>, and \<open>js_oprop\<close> is \<^verbatim>\<open>v?.k\<close>.
\<close>

fun js_get :: "jsval \<Rightarrow> string \<Rightarrow> jsval" where
  "js_get (JObj kvs) k = (case map_of kvs k of Some v \<Rightarrow> v | None \<Rightarrow> JUndef)"
| "js_get (JStr s) k = (if k = ''link'' then JFunction ''link'' else JUndef)"
| "js_get (JTimestamp s n) k =
     (if k = ''seconds'' then JNum (Fin (of_int s))
      else if k = ''nanoseconds'' then JNum (Fin (of_int n))
      else if k = ''toDate'' then JFunction ''toDate''
      else JUndef)"
| "js_get (JFunction n) k = (if k = ''name'' then JStr n else JUndef)"
| "js_get _ k = JUndef"

definition js_prop :: "jsval \<Rightarrow> string \<Rightarrow> jsval option" where
  "js_prop v k = (if nullish v then None else Some (js_get v k))"

definition js_oprop :: "jsval \<Rightarrow> string \<Rightarrow> jsval" where
  "js_oprop v k = (if nullish v then JUndef else js_get v k)"

text \<open>\<^verbatim>\<open>o[k] = v\<close> on a map: an existing key keeps its place, a new key is added last.\<close>

definition obj_set :: "obj \<Rightarrow> string \<Rightarrow> jsval \<Rightarrow> obj" where
  "obj_set kvs k v = AList.update k v kvs"

subsection \<open>Conversion to text and to number\<close>

text \<open>
  \<^verbatim>\<open>String(v)\<close> and \<^verbatim>\<open>Number(v)\<close>. A list is joined with commas, \<^verbatim>\<open>null\<close> and
  \<^verbatim>\<open>undefined\<close> elements giving the empty text. A map is converted through its
  \<^verbatim>\<open>toString\<close> and \<^verbatim>\<open>valueOf\<close>: the inherited \<^verbatim>\<open>toString\<close> gives
  \<^verbatim>\<open>[object Object]\<close>, but an own property \<^verbatim>\<open>toString\<close> (data, so not callable) hides
  it, and then the conversion throws a TypeError, whatever \<^verbatim>\<open>valueOf\<close> is.
\<close>

fun ToString :: "js_runtime \<Rightarrow> jsval \<Rightarrow> string option"
  and join_elems :: "js_runtime \<Rightarrow> jsval list \<Rightarrow> string option" where
  "ToString rt JUndef = Some ''undefined''"
| "ToString rt JNull = Some ''null''"
| "ToString rt (JBool b) = Some (if b then ''true'' else ''false'')"
| "ToString rt (JNum n) = Some (NumberToString rt n)"
| "ToString rt (JStr s) = Some s"
| "ToString rt (JArr xs) = join_elems rt xs"
| "ToString rt (JObj kvs) =
     (if map_of kvs ''toString'' \<noteq> None then None else Some ''[object Object]'')"
| "ToString rt (JFunction n) = Some (''function '' @ n @ ''() { [native code] }'')"
| "ToString rt (JTimestamp s n) = HostToString rt (JTimestamp s n)"
| "ToString rt JServerTimestamp = HostToString rt JServerTimestamp"
| "join_elems rt [] = Some ''''"
| "join_elems rt (x # xs) =
     do {
       a \<leftarrow> (if nullish x then Some '''' else ToString rt x);
       (if xs = [] then Some a
        else do { b \<leftarrow> join_elems rt xs; Some (a @ '','' @ b) })
     }"

fun ToNumber :: "js_runtime \<Rightarrow> jsval \<Rightarrow> jsnum option" where
  "ToNumber rt JUndef = Some NaN"
| "ToNumber rt JNull = Some (Fin 0)"
| "ToNumber rt (JBool b) = Some (Fin (if b then 1 else 0))"
| "ToNumber rt (JNum n) = Some n"
| "ToNumber rt (JStr s) = Some (StringToNumber rt s)"
| "ToNumber rt (JArr xs) = map_option (StringToNumber rt) (join_elems rt xs)"
| "ToNumber rt (JObj kvs) =
     (if map_of kvs ''toString'' \<noteq> None then None else Some NaN)"
| "ToNumber rt (JFunction n) = Some NaN"
| "ToNumber rt (JTimestamp s n) = HostToNumber rt (JTimestamp s n)"
| "ToNumber rt JServerTimestamp = HostToNumber rt JServerTimestamp"

text \<open>\<^verbatim>\<open>xs.map(f)\<close> where \<open>f\<close> may throw: the first exception ends the traversal.\<close>

fun mapM :: "('a \<Rightarrow> 'b option) \<Rightarrow> 'a list \<Rightarrow> 'b list option" where
  "mapM f [] = Some []"
| "mapM f (x # xs) = do { y \<leftarrow> f x; ys \<leftarrow> mapM f xs; Some (y # ys) }"

section \<open>Helpers of the normalization layer\<close>

text \<open>
  \<^verbatim>\<open>const asString = (v) => (v == null ? undefined : String(v));\<close>
  \<^verbatim>\<open>const asBool = (v) => (typeof v === 'boolean' ? v : undefined);\<close>
  \<^verbatim>\<open>const numOrUndef = (v) => { if (v === '' || v == null) return undefined;
     const n = Number(v); return Number.isFinite(n) ? n : undefined; };\<close>
\<close>

definition asString :: "js_runtime \<Rightarrow> jsval \<Rightarrow> jsval option" where
  "asString rt v = (if nullish v then Some JUndef else map_option JStr (ToString rt v))"

fun asBool :: "jsval \<Rightarrow> jsval" where
  "asBool (JBool b) = JBool b"
| "asBool _ = JUndef"

definition numOrUndef :: "js_runtime \<Rightarrow> jsval \<Rightarrow> jsval option" where
  "numOrUndef rt v =
     (if v = JStr '''' \<or> nullish v then Some JUndef
      else do { n \<leftarrow> ToNumber rt v; Some (if isFinite n then JNum n else JUndef) })"

subsection \<open>The product-list coercion\<close>

text \<open>
  \<^verbatim>\<open>
  const normProductsArray = (arr) => {
    if (!Array.isArray(arr)) return [];
    return arr
      .map((p) => ({
        id: p?.id == null || p?.id === '' ? undefined : Number(p.id),
        brand: p?.brand == null ? undefined : String(p.brand),
        name: ..., image: ..., link: ..., price: ...  (as brand)
      }))
      .map((p) => {
        const o = {};
        for (const [k, v] of Object.entries(p)) if (v !== undefined) o[k] = v;
        return o;
      });
  };
  \<close>
  \<open>product_fields\<close> is the first callback, \<open>drop_undefined\<close> the second.
\<close>

definition product_id :: "js_runtime \<Rightarrow> jsval \<Rightarrow> jsval option" where
  "product_id rt p =
     (if nullish (js_oprop p ''id'') \<or> js_oprop p ''id'' = JStr '''' then Some JUndef
      else do { q \<leftarrow> js_prop p ''id''; map_option JNum (ToNumber rt q) })"

definition product_text :: "js_runtime \<Rightarrow> jsval \<Rightarrow> string \<Rightarrow> jsval option" where
  "product_text rt p k =
     (if nullish (js_oprop p k) then Some JUndef
      else do { q \<leftarrow> js_prop p k; map_option JStr (ToString rt q) })"

definition product_fields :: "js_runtime \<Rightarrow> jsval \<Rightarrow> obj option" where
  "product_fields rt p =
     do {
       i \<leftarrow> product_id rt p;
       b \<leftarrow> product_text rt p ''brand'';
       n \<leftarrow> product_text rt p ''name'';
       g \<leftarrow> product_text rt p ''image'';
       l \<leftarrow> product_text rt p ''link'';
       c \<leftarrow> product_text rt p ''price'';
       Some [(''id'', i), (''brand'', b), (''name'', n), (''image'', g), (''link'', l),
             (''price'', c)]
     }"

definition drop_undefined :: "obj \<Rightarrow> jsval" where
  "drop_undefined p =
     JObj (foldl (\<lambda>out (k, v). if v \<noteq> JUndef then obj_set out k v else out) [] p)"

definition normProductsArray :: "js_runtime \<Rightarrow> jsval \<Rightarrow> jsval option" where
  "normProductsArray rt arr =
     (case arr of
        JArr ps \<Rightarrow> do { qs \<leftarrow> mapM (product_fields rt) ps; Some (JArr (map drop_undefined qs)) }
      | _ \<Rightarrow> Some (JArr []))"

subsection \<open>Tag lists\<close>

text \<open>
  \<^verbatim>\<open>trim()\<close> removes white space and line terminators at both ends; among the code
  units below 256 these are 9 to 13, 32 and 160. \<open>split_comma\<close> is \<^verbatim>\<open>split(',')\<close>.
  \<^verbatim>\<open>
  const normTags = (tags) => {
    if (Array.isArray(tags)) return tags.map((t) => String(t).trim()).filter(Boolean);
    if (typeof tags === 'string') return tags.split(',').map((t) => t.trim()).filter(Boolean);
    return [];
  };
  \<close>
\<close>

definition is_ws :: "char \<Rightarrow> bool" where
  "is_ws c = (of_char c \<in> {9, 10, 11, 12, 13, 32, 160 :: nat})"

definition trim :: "string \<Rightarrow> string" where
  "trim s = rev (dropWhile is_ws (rev (dropWhile is_ws s)))"

fun split_comma :: "string \<Rightarrow> string list" where
  "split_comma [] = [[]]"
| "split_comma (c # cs) =
     (if c = CHR '','' then [] # split_comma cs
      else (case split_comma cs of [] \<Rightarrow> [[c]] | w # ws \<Rightarrow> (c # w) # ws))"

definition nonempty_texts :: "string list \<Rightarrow> jsval" where
  "nonempty_texts ss = JArr (map JStr (filter (\<lambda>s. s \<noteq> []) ss))"

definition normTags :: "js_runtime \<Rightarrow> jsval \<Rightarrow> jsval option" where
  "normTags rt tags =
     (case tags of
        JArr ts \<Rightarrow>
          do { ss \<leftarrow> mapM (\<lambda>t. map_option trim (ToString rt t)) ts; Some (nonempty_texts ss) }
      | JStr s \<Rightarrow> Some (nonempty_texts (map trim (split_comma s)))
      | _ \<Rightarrow> Some (JArr []))"

subsection \<open>Timestamp coercion\<close>

text \<open>
  \<^verbatim>\<open>
  const toISO = (createdAt) => {
    try {
      if (!createdAt) return null;
      if (typeof createdAt === 'string') return createdAt;
      if (typeof createdAt?.toDate === 'function') return createdAt.toDate().toISOString();
      if (createdAt.seconds != null) {
        const d = new Date(createdAt.seconds * 1000
                           + Math.floor((createdAt.nanoseconds || 0) / 1e6));
        return d.toISOString();
      }
    } catch {}
    return null;
  };
  \<close>
  \<open>toISO_try\<close> is the body of the \<^verbatim>\<open>try\<close> block: \<open>None\<close> when it throws, \<open>Some JUndef\<close>
  when it falls through without returning. A date is its time value in milliseconds, or
  \<open>None\<close> when it is invalid; \<^verbatim>\<open>new Date(x)\<close> is invalid for a value that is not finite
  or beyond 8.64e15 in magnitude, and truncates a fraction; \<^verbatim>\<open>toISOString()\<close> throws a
  RangeError on an invalid date. A method \<^verbatim>\<open>toDate\<close> can be called on the native
  timestamp only.
\<close>

fun math_floor :: "jsnum \<Rightarrow> jsnum" where
  "math_floor (Fin q) = Fin (of_int \<lfloor>q\<rfloor>)"
| "math_floor n = n"

fun new_Date :: "jsnum \<Rightarrow> int option" where
  "new_Date (Fin q) =
     (if \<bar>q\<bar> \<le> 8640000000000000 then Some (if 0 \<le> q then \<lfloor>q\<rfloor> else \<lceil>q\<rceil>) else None)"
| "new_Date _ = None"

definition toISOString :: "js_runtime \<Rightarrow> int option \<Rightarrow> string option" where
  "toISOString rt d = map_option (DateFormat rt) d"

fun call_toDate :: "js_runtime \<Rightarrow> jsval \<Rightarrow> int option option" where
  "call_toDate rt (JTimestamp s n) = Some (TimestampToDate rt s n)"
| "call_toDate rt _ = None"

definition toISO_try :: "js_runtime \<Rightarrow> jsval \<Rightarrow> jsval option" where
  "toISO_try rt createdAt =
     (if \<not> truthy createdAt then Some JNull
      else if typeof_string createdAt then Some createdAt
      else if typeof_function (js_oprop createdAt ''toDate'') then
        do { d \<leftarrow> call_toDate rt createdAt; s \<leftarrow> toISOString rt d; Some (JStr s) }
      else if \<not> nullish (js_get createdAt ''seconds'') then
        do {
          secs \<leftarrow> ToNumber rt (js_get createdAt ''seconds'');
          nanos \<leftarrow> ToNumber rt (js_or (js_get createdAt ''nanoseconds'') (JNum (Fin 0)));
          s \<leftarrow> toISOString rt
                 (new_Date (fadd rt (fmul rt secs (Fin 1000))
                                    (math_floor (fdiv rt nanos (Fin 1000000)))));
          Some (JStr s)
        }
      else Some JUndef)"

definition toISO :: "js_runtime \<Rightarrow> jsval \<Rightarrow> jsval" where
  "toISO rt createdAt =
     (case toISO_try rt createdAt of
        None \<Rightarrow> JNull
      | Some v \<Rightarrow> (if v = JUndef then JNull else v))"

subsection \<open>Object spread\<close>

text \<open>
  \<^verbatim>\<open>{ ...a, ...b }\<close> copies the own enumerable properties of \<open>a\<close>, then those of \<open>b\<close>.
  A map has its entries; a list and a text have their elements under the decimal indices;
  the native timestamp has the two fields of its class; every other value has none.
\<close>

function show_nat :: "nat \<Rightarrow> string" where
  "show_nat n =
     (if n < 10 then [char_of (48 + n)] else show_nat (n div 10) @ [char_of (48 + n mod 10)])"
  by pat_completeness auto
termination
  by (relation "measure id") auto

definition indexed :: "jsval list \<Rightarrow> obj" where
  "indexed xs = zip (map show_nat [0..<length xs]) xs"

fun own_entries :: "jsval \<Rightarrow> obj" where
  "own_entries (JObj kvs) = kvs"
| "own_entries (JArr xs) = indexed xs"
| "own_entries (JStr s) = indexed (map (\<lambda>c. JStr [c]) s)"
| "own_entries (JTimestamp s n) =
     [(''_seconds'', JNum (Fin (of_int s))), (''_nanoseconds'', JNum (Fin (of_int n)))]"
| "own_entries _ = []"

definition spread :: "obj \<Rightarrow> jsval \<Rightarrow> obj" where
  "spread out v = foldl (\<lambda>acc (k, x). obj_set acc k x) out (own_entries v)"

section \<open>Feed items (collection recentItems)\<close>

text \<open>
  A document snapshot: its identifier and \<^verbatim>\<open>d.data()\<close>, which is a map, or
  \<^verbatim>\<open>undefined\<close> for a document that does not exist.
\<close>

record snapshot =
  snap_id :: string
  snap_data :: jsval

text \<open>
  \<^verbatim>\<open>
  function shapeItemDoc(d) {
    const data = d.data() || {};
    return {
      _id: d.id,
      category: data.category || '',
      description: data.description || '',
      image: data.image || '',
      thumbnail: data.thumbnail || '',
      instagramUrl: data.instagramUrl || '',
      isSaved: !!data.isSaved,
      tags: Array.isArray(data.tags) ? data.tags : normTags(data.tags),
      title: data.title || '',
      uploadDate: data.uploadDate || '',
      id: typeof data.id === 'string' ? data.id : undefined,
      createdAt: data.createdAt ? toISO(data.createdAt) : null,
      content: {
        ...(data.content && typeof data.content === 'object' ? data.content : {}),
        products: normProductsArray(data?.content?.products || []),
      },
      stats:
        data.stats && typeof data.stats === 'object'
          ? { views: numOrUndef(data.stats.views), saves: numOrUndef(data.stats.saves),
              shares: numOrUndef(data.stats.shares) }
          : undefined,
    };
  }
  \<close>
  \<open>data\<close> is truthy, so reading a property of it never throws. The parts of the result
  that can throw are bound first: an exception in any of them ends the call, in whichever
  order they run.
\<close>

definition text_or_empty :: "jsval \<Rightarrow> string \<Rightarrow> jsval" where
  "text_or_empty data k = js_or (js_get data k) (JStr [])"

definition shape_tags :: "js_runtime \<Rightarrow> jsval \<Rightarrow> jsval option" where
  "shape_tags rt data =
     (if isArray (js_get data ''tags'') then Some (js_get data ''tags'')
      else normTags rt (js_get data ''tags''))"

definition shape_createdAt :: "js_runtime \<Rightarrow> jsval \<Rightarrow> jsval" where
  "shape_createdAt rt data =
     (if truthy (js_get data ''createdAt'') then toISO rt (js_get data ''createdAt'') else JNull)"


text \<open>
  \<^verbatim>\<open>
  function sanitizeItem(body = {}) {
    const out = {};
    const set = (k, v) => { if (v !== undefined) out[k] = v; };
    set('category', asString(body.category));
    ... description, image, thumbnail, instagramUrl, uploadDate, title ...
    set('isSaved', asBool(body.isSaved));
    set('tags', normTags(body.tags));
    if (typeof body.id === 'string' && body.id.trim()) set('id', body.id.trim());
    if (typeof body.createdAt === 'string' && body.createdAt.trim())
      set('createdAt', body.createdAt.trim());
    let content = body.content && typeof body.content === 'object' ? { ...body.content } : {};
    const incomingProducts = Array.isArray(body?.content?.products)
      ? normProductsArray(body.content.products)
      : Array.isArray(body.products) ? normProductsArray(body.products) : undefined;
    if (incomingProducts !== undefined) content.products = incomingProducts;
    if (Object.keys(content).length) set('content', content);
    if (body.stats && typeof body.stats === 'object') {
      const s = {};
      if (!isNaN(Number(body.stats.views))) s.views = Number(body.stats.views);
      ... saves, shares ...
      if (Object.keys(s).length) set('stats', s);
    }
    return out;
  }
  \<close>
  \<open>set_field\<close> is the local helper \<^verbatim>\<open>set\<close>; \<open>set_text\<close>, \<open>set_bool\<close>, \<open>set_tags\<close>,
  \<open>set_trimmed\<close>, \<open>set_content\<close> and \<open>set_stats\<close> are one statement of the body each;
  \<open>item_content\<close> is the final value of \<^verbatim>\<open>content\<close> and \<open>stats_fields\<close> that of \<^verbatim>\<open>s\<close>.
  The default parameter replaces \<^verbatim>\<open>undefined\<close> only, so a \<^verbatim>\<open>null\<close> body throws at
  the first property read.
\<close>

definition set_field :: "obj \<Rightarrow> string \<Rightarrow> jsval \<Rightarrow> obj" where
  "set_field out k v = (if v \<noteq> JUndef then obj_set out k v else out)"

definition default_body :: "jsval \<Rightarrow> jsval" where
  "default_body body = (if body = JUndef then JObj [] else body)"

definition set_text :: "js_runtime \<Rightarrow> jsval \<Rightarrow> string \<Rightarrow> obj \<Rightarrow> obj option" where
  "set_text rt body k out =
     do { x \<leftarrow> js_prop body k; v \<leftarrow> asString rt x; Some (set_field out k v) }"

definition set_bool :: "jsval \<Rightarrow> string \<Rightarrow> obj \<Rightarrow> obj option" where
  "set_bool body k out = do { x \<leftarrow> js_prop body k; Some (set_field out k (asBool x)) }"

definition set_tags :: "js_runtime \<Rightarrow> jsval \<Rightarrow> obj \<Rightarrow> obj option" where
  "set_tags rt body out =
     do { x \<leftarrow> js_prop body ''tags''; v \<leftarrow> normTags rt x; Some (set_field out ''tags'' v) }"

fun trimmed_text :: "jsval \<Rightarrow> jsval" where
  "trimmed_text (JStr s) = (if trim s \<noteq> [] then JStr (trim s) else JUndef)"
| "trimmed_text _ = JUndef"

definition set_trimmed :: "jsval \<Rightarrow> string \<Rightarrow> obj \<Rightarrow> obj option" where
  "set_trimmed body k out = do { x \<leftarrow> js_prop body k; Some (set_field out k (trimmed_text x)) }"

definition incomingProducts :: "js_runtime \<Rightarrow> jsval \<Rightarrow> jsval option" where
  "incomingProducts rt body =
     (if isArray (js_oprop (js_oprop body ''content'') ''products'') then
        do { c \<leftarrow> js_prop body ''content''; ps \<leftarrow> js_prop c ''products''; normProductsArray rt ps }
      else do {
        ps \<leftarrow> js_prop body ''products'';
        (if isArray ps then normProductsArray rt ps else Some JUndef)
      })"

definition item_content :: "js_runtime \<Rightarrow> jsval \<Rightarrow> obj option" where
  "item_content rt body =
     do {
       c \<leftarrow> js_prop body ''content'';
       incoming \<leftarrow> incomingProducts rt body;
       let content = (if truthy c \<and> typeof_object c then spread [] c else [])
       in Some (if incoming \<noteq> JUndef then obj_set content ''products'' incoming else content)
     }"

definition set_content :: "js_runtime \<Rightarrow> jsval \<Rightarrow> obj \<Rightarrow> obj option" where
  "set_content rt body out =
     do {
       content \<leftarrow> item_content rt body;
       Some (if content \<noteq> [] then set_field out ''content'' (JObj content) else out)
     }"

fun isNaN :: "jsnum \<Rightarrow> bool" where
  "isNaN NaN = True"
| "isNaN _ = False"

definition stat_field :: "js_runtime \<Rightarrow> jsval \<Rightarrow> string \<Rightarrow> obj \<Rightarrow> obj option" where
  "stat_field rt stats k s =
     do {
       n \<leftarrow> ToNumber rt (js_get stats k);
       (if \<not> isNaN n then do { m \<leftarrow> ToNumber rt (js_get stats k); Some (obj_set s k (JNum m)) }
        else Some s)
     }"

definition stats_fields :: "js_runtime \<Rightarrow> jsval \<Rightarrow> obj option" where
  "stats_fields rt stats =
     do {
       s \<leftarrow> stat_field rt stats ''views'' [];
       s \<leftarrow> stat_field rt stats ''saves'' s;
       stat_field rt stats ''shares'' s
     }"

definition set_stats :: "js_runtime \<Rightarrow> jsval \<Rightarrow> obj \<Rightarrow> obj option" where
  "set_stats rt body out =
     do {
       stats \<leftarrow> js_prop body ''stats'';
       (if truthy stats \<and> typeof_object stats then
          do {
            s \<leftarrow> stats_fields rt stats;
            Some (if s \<noteq> [] then set_field out ''stats'' (JObj s) else out)
          }
        else Some out)
     }"

definition sanitizeItem :: "js_runtime \<Rightarrow> jsval \<Rightarrow> obj option" where
  "sanitizeItem rt body0 =
     (let body = default_body body0 in
      do {
        out \<leftarrow> set_text rt body ''category'' [];
        out \<leftarrow> set_text rt body ''description'' out;
        out \<leftarrow> set_text rt body ''image'' out;
        out \<leftarrow> set_text rt body ''thumbnail'' out;
        out \<leftarrow> set_text rt body ''instagramUrl'' out;
        out \<leftarrow> set_text rt body ''uploadDate'' out;
        out \<leftarrow> set_text rt body ''title'' out;
        out \<leftarrow> set_bool body ''isSaved'' out;
        out \<leftarrow> set_tags rt body out;
        out \<leftarrow> set_trimmed body ''id'' out;
        out \<leftarrow> set_trimmed body ''createdAt'' out;
        out \<leftarrow> set_content rt body out;
        set_stats rt body out
      })"

section \<open>Images (collection images)\<close>

text \<open>\<^verbatim>\<open>a ?? b\<close> yields \<open>b\<close> when \<open>a\<close> is \<^verbatim>\<open>null\<close> or \<^verbatim>\<open>undefined\<close>.\<close>

definition js_coalesce :: "jsval \<Rightarrow> jsval \<Rightarrow> jsval" where
  "js_coalesce a b = (if nullish a then b else a)"

text \<open>
  \<^verbatim>\<open>
  function shapeImageDoc(d) {
    const data = d.data() || {};
    const meta = data.metadata && typeof data.metadata === 'object' ? data.metadata : {};
    return {
      _id: d.id,
      category: data.category || '',
      createdAt: data.createdAt ? toISO(data.createdAt) : null,
      description: data.description || '',
      title: data.title || '',
      id: typeof data.id === 'string' ? data.id : undefined,
      imageUrl: data.imageUrl || '',
      thumbnailUrl: data.thumbnailUrl || '',
      uploadDate: data.uploadDate || '',
      isPublic: !!data.isPublic,
      likes: numOrUndef(data.likes) ?? 0,
      saves: numOrUndef(data.saves) ?? 0,
      shares: numOrUndef(data.shares) ?? 0,
      views: numOrUndef(data.views) ?? 0,
      uploadedBy: data.uploadedBy || '',
      tags: Array.isArray(data.tags) ? data.tags : normTags(data.tags),
      metadata: {
        format: meta.format || '',
        size: numOrUndef(meta.size) ?? undefined,
        width: numOrUndef(meta.width) ?? undefined,
        height: numOrUndef(meta.height) ?? undefined,
      },
    };
  }
  \<close>
\<close>

definition counter :: "js_runtime \<Rightarrow> jsval \<Rightarrow> string \<Rightarrow> jsval option" where
  "counter rt data k =
     do { n \<leftarrow> numOrUndef rt (js_get data k); Some (js_coalesce n (JNum (Fin 0))) }"

definition shapeImageDoc :: "js_runtime \<Rightarrow> snapshot \<Rightarrow> jsval option" where
  "shapeImageDoc rt d =
     (let data = js_or (snap_data d) (JObj []);
          meta = (if truthy (js_get data ''metadata'') \<and> typeof_object (js_get data ''metadata'')
                  then js_get data ''metadata'' else JObj [])
      in do {
        likes \<leftarrow> counter rt data ''likes'';
        saves \<leftarrow> counter rt data ''saves'';
        shares \<leftarrow> counter rt data ''shares'';
        views \<leftarrow> counter rt data ''views'';
        tags \<leftarrow> shape_tags rt data;
        size \<leftarrow> numOrUndef rt (js_get meta ''size'');
        width \<leftarrow> numOrUndef rt (js_get meta ''width'');
        height \<leftarrow> numOrUndef rt (js_get meta ''height'');
        Some (JObj
          [(''_id'', JStr (snap_id d)),
           (''category'', text_or_empty data ''category''),
           (''createdAt'', shape_createdAt rt data),
           (''description'', text_or_empty data ''description''),
           (''title'', text_or_empty data ''title''),
           (''id'', if typeof_string (js_get data ''id'') then js_get data ''id'' else JUndef),
           (''imageUrl'', text_or_empty data ''imageUrl''),
           (''thumbnailUrl'', text_or_empty data ''thumbnailUrl''),
           (''uploadDate'', text_or_empty data ''uploadDate''),
           (''isPublic'', JBool (truthy (js_get data ''isPublic''))),
           (''likes'', likes),
           (''saves'', saves),
           (''shares'', shares),
           (''views'', views),
           (''uploadedBy'', text_or_empty data ''uploadedBy''),
           (''tags'', tags),
           (''metadata'',
              JObj [(''format'', text_or_empty meta ''format''),
                    (''size'', js_coalesce size JUndef),
                    (''width'', js_coalesce width JUndef),
                    (''height'', js_coalesce height JUndef)])])
      })"

text \<open>
  \<^verbatim>\<open>
  function sanitizeImage(body = {}) {
    const out = {};
    const set = (k, v) => { if (v !== undefined) out[k] = v; };
    set('category', asString(body.category));
    set('createdAt', asString(body.createdAt)); // keep as ISO string
    set('description', asString(body.description));
    set('title', asString(body.title));
    set('id', typeof body.id === 'string' && body.id.trim() ? body.id.trim() : undefined);
    set('imageUrl', asString(body.imageUrl));
    set('thumbnailUrl', asString(body.thumbnailUrl ?? body.imageUrl)); // fallback
    set('uploadDate', asString(body.uploadDate));
    set('isPublic', asBool(body.isPublic));
    set('likes', numOrUndef(body.likes));
    set('saves', numOrUndef(body.saves));
    set('shares', numOrUndef(body.shares));
    set('views', numOrUndef(body.views));
    set('uploadedBy', asString(body.uploadedBy));
    set('tags', normTags(body.tags));
    if (body.metadata && typeof body.metadata === 'object') {
      const m = {};
      if (typeof body.metadata.format === 'string') m.format = body.metadata.format;
      const size = numOrUndef(body.metadata.size);
      const width = numOrUndef(body.metadata.width);
      const height = numOrUndef(body.metadata.height);
      if (size !== undefined) m.size = size;
      if (width !== undefined) m.width = width;
      if (height !== undefined) m.height = height;
      if (Object.keys(m).length) set('metadata', m);
    }
    return out;
  }
  \<close>
\<close>

definition set_number :: "js_runtime \<Rightarrow> jsval \<Rightarrow> string \<Rightarrow> obj \<Rightarrow> obj option" where
  "set_number rt body k out =
     do { x \<leftarrow> js_prop body k; v \<leftarrow> numOrUndef rt x; Some (set_field out k v) }"

definition set_thumbnailUrl :: "js_runtime \<Rightarrow> jsval \<Rightarrow> obj \<Rightarrow> obj option" where
  "set_thumbnailUrl rt body out =
     do {
       t \<leftarrow> js_prop body ''thumbnailUrl'';
       i \<leftarrow> js_prop body ''imageUrl'';
       v \<leftarrow> asString rt (js_coalesce t i);
       Some (set_field out ''thumbnailUrl'' v)
     }"

definition metadata_fields :: "js_runtime \<Rightarrow> jsval \<Rightarrow> obj option" where
  "metadata_fields rt md =
     do {
       let m = (if typeof_string (js_get md ''format'')
                then obj_set [] ''format'' (js_get md ''format'') else []);
       size \<leftarrow> numOrUndef rt (js_get md ''size'');
       width \<leftarrow> numOrUndef rt (js_get md ''width'');
       height \<leftarrow> numOrUndef rt (js_get md ''height'');
       Some (set_field (set_field (set_field m ''size'' size) ''width'' width) ''height'' height)
     }"

definition set_metadata :: "js_runtime \<Rightarrow> jsval \<Rightarrow> obj \<Rightarrow> obj option" where
  "set_metadata rt body out =
     do {
       md \<leftarrow> js_prop body ''metadata'';
       (if truthy md \<and> typeof_object md then
          do {
            m \<leftarrow> metadata_fields rt md;
            Some (if m \<noteq> [] then set_field out ''metadata'' (JObj m) else out)
          }
        else Some out)
     }"

definition sanitizeImage :: "js_runtime \<Rightarrow> jsval \<Rightarrow> obj option" where
  "sanitizeImage rt body0 =
     (let body = default_body body0 in
      do {
        out \<leftarrow> set_text rt body ''category'' [];
        out \<leftarrow> set_text rt body ''createdAt'' out;
        out \<leftarrow> set_text rt body ''description'' out;
        out \<leftarrow> set_text rt body ''title'' out;
        out \<leftarrow> set_trimmed body ''id'' out;
        out \<leftarrow> set_text rt body ''imageUrl'' out;
        out \<leftarrow> set_thumbnailUrl rt body out;
        out \<leftarrow> set_text rt body ''uploadDate'' out;
        out \<leftarrow> set_bool body ''isPublic'' out;
        out \<leftarrow> set_number rt body ''likes'' out;
        out \<leftarrow> set_number rt body ''saves'' out;
        out \<leftarrow> set_number rt body ''shares'' out;
        out \<leftarrow> set_number rt body ''views'' out;
        out \<leftarrow> set_text rt body ''uploadedBy'' out;
        out \<leftarrow> set_tags rt body out;
        set_metadata rt body out
      })"

section \<open>The document store and the route handlers\<close>

text \<open>
  A collection of the document store maps a document identifier to the fields of the
  document. The handlers below read and write one collection; a handler returns its HTTP
  response and the collection after it. The operations of the store are those the source
  calls: \<^verbatim>\<open>get\<close>, \<^verbatim>\<open>set(fields, {merge: true})\<close>, which creates a missing document and
  overwrites the given fields, \<^verbatim>\<open>update(fields)\<close>, which overwrites the given fields of an
  existing document and fails on a missing one, the field transform \<^verbatim>\<open>arrayUnion\<close> and
  \<^verbatim>\<open>add\<close>. A write replaces the marker \<open>JServerTimestamp\<close> by the timestamp of the
  store's clock. (The store merges a field that holds a map key by key; the handlers below
  write lists, texts and timestamps, and a map only as the value that the field already
  has, for which overwriting the field is the same.) The store's own validation of values
  and failures of the transport are outside the model: a write of the model fails only on
  a missing document.
\<close>

type_synonym collection = "string \<Rightarrow> obj option"

record response =
  status :: nat
  payload :: jsval

definition respond :: "nat \<Rightarrow> jsval \<Rightarrow> response" where
  "respond code v = \<lparr> status = code, payload = v \<rparr>"

definition error_body :: "string \<Rightarrow> jsval" where
  "error_body msg = JObj [(''error'', JStr msg)]"

definition resolve :: "int \<times> int \<Rightarrow> jsval \<Rightarrow> jsval" where
  "resolve clock v = (if v = JServerTimestamp then JTimestamp (fst clock) (snd clock) else v)"

definition write_fields :: "int \<times> int \<Rightarrow> obj \<Rightarrow> obj \<Rightarrow> obj" where
  "write_fields clock stored upd =
     foldl (\<lambda>acc (k, v). obj_set acc k (resolve clock v)) stored upd"

definition store_set_merge :: "int \<times> int \<Rightarrow> collection \<Rightarrow> string \<Rightarrow> obj \<Rightarrow> collection" where
  "store_set_merge clock db docId upd =
     db(docId \<mapsto> write_fields clock (case db docId of None \<Rightarrow> [] | Some stored \<Rightarrow> stored) upd)"

definition store_update :: "int \<times> int \<Rightarrow> collection \<Rightarrow> string \<Rightarrow> obj \<Rightarrow> collection option" where
  "store_update clock db docId upd =
     (case db docId of
        None \<Rightarrow> None
      | Some stored \<Rightarrow> Some (db(docId \<mapsto> write_fields clock stored upd)))"

definition store_add :: "int \<times> int \<Rightarrow> collection \<Rightarrow> string \<Rightarrow> obj \<Rightarrow> collection" where
  "store_add clock db newId upd = db(newId \<mapsto> write_fields clock [] upd)"

definition store_get :: "collection \<Rightarrow> string \<Rightarrow> snapshot" where
  "store_get db docId =
     \<lparr> snap_id = docId,
       snap_data = (case db docId of None \<Rightarrow> JUndef | Some stored \<Rightarrow> JObj stored) \<rparr>"

subsection \<open>Groups with items (collections basics and recreate)\<close>

text \<open>
  The handlers of \<^verbatim>\<open>/api/basics\<close> and \<^verbatim>\<open>/api/recreate\<close> are the same text but for the
  name of the collection, so one model stands for both.
  \<^verbatim>\<open>
  app.put('/api/basics/:groupId/items/:itemId', async (req, res) => {
    try {
      const { groupId, itemId } = req.params;
      const groupRef = db.collection('basics').doc(groupId);
      const doc = await groupRef.get();
      if (!doc.exists) return res.status(404).json({ error: 'Group not found' });
      let items = doc.data().items || [];
      const idx = items.findIndex(i => i.id === itemId);
      if (idx === -1) return res.status(404).json({ error: 'Item not found' });
      items[idx] = { ...items[idx], ...req.body };
      await groupRef.update({ items });
      res.json(items[idx]);
    } catch (e) {
      res.status(500).json({ error: 'Update failed' });
    }
  });
  \<close>
  \<open>stored_items\<close> is \<^verbatim>\<open>doc.data().items || []\<close> as the list on which \<^verbatim>\<open>findIndex\<close> and
  \<^verbatim>\<open>filter\<close> are called: a truthy value that is not a list has neither method, and the
  call throws. The callbacks read \<^verbatim>\<open>i.id\<close>, which throws on an entry that is
  \<^verbatim>\<open>null\<close>. \<open>findIndex_id\<close> yields \<open>Some None\<close> for the index -1.
\<close>

definition stored_items :: "obj \<Rightarrow> jsval list option" where
  "stored_items stored =
     (case js_or (js_get (JObj stored) ''items'') (JArr []) of
        JArr xs \<Rightarrow> Some xs
      | _ \<Rightarrow> None)"

fun findIndex_id :: "string \<Rightarrow> jsval list \<Rightarrow> nat option option" where
  "findIndex_id itemId [] = Some None"
| "findIndex_id itemId (i # rest) =
     do {
       v \<leftarrow> js_prop i ''id'';
       (if v = JStr itemId then Some (Some 0)
        else map_option (map_option Suc) (findIndex_id itemId rest))
     }"

definition update_item_try ::
  "int \<times> int \<Rightarrow> collection \<Rightarrow> string \<Rightarrow> string \<Rightarrow> jsval \<Rightarrow> (response \<times> collection) option" where
  "update_item_try clock db groupId itemId body =
     (case db groupId of
        None \<Rightarrow> Some (respond 404 (error_body ''Group not found''), db)
      | Some stored \<Rightarrow>
          do {
            items \<leftarrow> stored_items stored;
            idx \<leftarrow> findIndex_id itemId items;
            (case idx of
               None \<Rightarrow> Some (respond 404 (error_body ''Item not found''), db)
             | Some n \<Rightarrow>
                 do {
                   let merged = JObj (spread (spread [] (items ! n)) body);
                   db' \<leftarrow> store_update clock db groupId [(''items'', JArr (items[n := merged]))];
                   Some (respond 200 merged, db')
                 })
          })"

definition update_item ::
  "int \<times> int \<Rightarrow> collection \<Rightarrow> string \<Rightarrow> string \<Rightarrow> jsval \<Rightarrow> response \<times> collection" where
  "update_item clock db groupId itemId body =
     (case update_item_try clock db groupId itemId body of
        None \<Rightarrow> (respond 500 (error_body ''Update failed''), db)
      | Some r \<Rightarrow> r)"

text \<open>
  \<^verbatim>\<open>
  app.delete('/api/basics/:groupId/items/:itemId', async (req, res) => {
    try {
      const { groupId, itemId } = req.params;
      const groupRef = db.collection('basics').doc(groupId);
      const doc = await groupRef.get();
      if (!doc.exists) return res.status(404).json({ error: 'Group not found' });
      const items = doc.data().items || [];
      const filtered = items.filter(i => i.id !== itemId);
      await groupRef.update({ items: filtered });
      res.json({ deleted: true });
    } catch (e) {
      res.status(500).json({ error: 'Delete failed' });
    }
  });
  \<close>
\<close>

fun filter_id :: "string \<Rightarrow> jsval list \<Rightarrow> jsval list option" where
  "filter_id itemId [] = Some []"
| "filter_id itemId (i # rest) =
     do {
       v \<leftarrow> js_prop i ''id'';
       kept \<leftarrow> filter_id itemId rest;
       Some (if v \<noteq> JStr itemId then i # kept else kept)
     }"

definition delete_item_try ::
  "int \<times> int \<Rightarrow> collection \<Rightarrow> string \<Rightarrow> string \<Rightarrow> (response \<times> collection) option" where
  "delete_item_try clock db groupId itemId =
     (case db groupId of
        None \<Rightarrow> Some (respond 404 (error_body ''Group not found''), db)
      | Some stored \<Rightarrow>
          do {
            items \<leftarrow> stored_items stored;
            filtered \<leftarrow> filter_id itemId items;
            db' \<leftarrow> store_update clock db groupId [(''items'', JArr filtered)];
            Some (respond 200 (JObj [(''deleted'', JBool True)]), db')
          })"

definition delete_item ::
  "int \<times> int \<Rightarrow> collection \<Rightarrow> string \<Rightarrow> string \<Rightarrow> response \<times> collection" where
  "delete_item clock db groupId itemId =
     (case delete_item_try clock db groupId itemId of
        None \<Rightarrow> (respond 500 (error_body ''Delete failed''), db)
      | Some r \<Rightarrow> r)"

text \<open>
  \<^verbatim>\<open>
  app.post('/api/basics/:groupId/items', async (req, res) => {
    try {
      const { groupId } = req.params;
      const newItem = { ...req.body, id: req.body.id || Date.now().toString() };
      const groupRef = db.collection('basics').doc(groupId);
      // Create document only if it doesn't exist, **do NOT set items: []**
      await groupRef.set({}, { merge: true });
      // Atomically append the new item
      await groupRef.update({ items: admin.firestore.FieldValue.arrayUnion(newItem) });
      res.json(newItem);
    } catch (e) {
      res.status(500).json({ error: 'Create failed' });
    }
  });
  \<close>
  The handler builds the new item, then sends two operations to the store and awaits
  each. Each is a single request that the store applies atomically: \<open>EnsureExists\<close>
  is the merge-write of the empty map and \<open>ArrayUnion\<close> is the update of \<^verbatim>\<open>items\<close>
  with the transform \<^verbatim>\<open>arrayUnion\<close>, which adds the value to the stored list unless the
  list holds it already, and writes the one-element list over a field that is not a
  list. \<open>now\<close> is the text of \<^verbatim>\<open>Date.now()\<close>.
\<close>

datatype store_op = EnsureExists string | ArrayUnion string jsval

definition array_union :: "jsval \<Rightarrow> jsval \<Rightarrow> jsval" where
  "array_union cur x =
     (case cur of
        JArr xs \<Rightarrow> (if x \<in> set xs then JArr xs else JArr (xs @ [x]))
      | _ \<Rightarrow> JArr [x])"

fun apply_op :: "int \<times> int \<Rightarrow> collection \<Rightarrow> store_op \<Rightarrow> collection option" where
  "apply_op clock db (EnsureExists docId) = Some (store_set_merge clock db docId [])"
| "apply_op clock db (ArrayUnion docId x) =
     (case db docId of
        None \<Rightarrow> None
      | Some stored \<Rightarrow>
          store_update clock db docId
            [(''items'', array_union (js_get (JObj stored) ''items'') x)])"

definition new_item :: "string \<Rightarrow> jsval \<Rightarrow> jsval option" where
  "new_item now body =
     do {
       given \<leftarrow> js_prop body ''id'';
       Some (JObj (obj_set (spread [] body) ''id'' (js_or given (JStr now))))
     }"

text \<open>
  A handler that is being served is either done, with its response, or waits at an
  \<^verbatim>\<open>await\<close> for the store to apply one operation: \<open>Await op k e\<close> goes on as \<open>k\<close> when the
  store has applied \<open>op\<close>, and as \<open>e\<close>, the \<^verbatim>\<open>catch\<close> block, when the store rejects it.
  Between two operations of one handler the store may apply operations of another.
  \<open>append_item\<close> is the handler of the route above as such a process.
\<close>

datatype request = Reply response | Await store_op request request

definition append_item :: "string \<Rightarrow> string \<Rightarrow> jsval \<Rightarrow> request" where
  "append_item now groupId body =
     (let failed = Reply (respond 500 (error_body ''Create failed'')) in
      case new_item now body of
        None \<Rightarrow> failed
      | Some item \<Rightarrow>
          Await (EnsureExists groupId)
            (Await (ArrayUnion groupId item) (Reply (respond 200 item)) failed)
            failed)"

text \<open>
  \<open>serve\<close> runs one handler to its response, alone. \<open>serve_both\<close> runs two handlers
  at the same time: whenever both wait for the store, either operation may be applied
  first, and the result lists the outcome of every such order: the two responses and
  the collection at the end.
\<close>

fun serve :: "int \<times> int \<Rightarrow> collection \<Rightarrow> request \<Rightarrow> response \<times> collection" where
  "serve clock db (Reply r) = (r, db)"
| "serve clock db (Await op k e) =
     (case apply_op clock db op of
        None \<Rightarrow> serve clock db e
      | Some db' \<Rightarrow> serve clock db' k)"

fun serve_both ::
  "int \<times> int \<Rightarrow> collection \<Rightarrow> request \<Rightarrow> request \<Rightarrow> ((response \<times> response) \<times> collection) list" where
  "serve_both clock db (Reply r1) q = (let (r2, db') = serve clock db q in [((r1, r2), db')])"
| "serve_both clock db (Await op k e) (Reply r2) =
     (let (r1, db') = serve clock db (Await op k e) in [((r1, r2), db')])"
| "serve_both clock db (Await op1 k1 e1) (Await op2 k2 e2) =
     (case apply_op clock db op1 of
        None \<Rightarrow> serve_both clock db e1 (Await op2 k2 e2)
      | Some db' \<Rightarrow> serve_both clock db' k1 (Await op2 k2 e2))
     @
     (case apply_op clock db op2 of
        None \<Rightarrow> serve_both clock db (Await op1 k1 e1) e2
      | Some db' \<Rightarrow> serve_both clock db' (Await op1 k1 e1) k2)"

definition group_items :: "collection \<Rightarrow> string \<Rightarrow> jsval list" where
  "group_items db groupId =
     (case db groupId of
        None \<Rightarrow> []
      | Some stored \<Rightarrow> (case js_get (JObj stored) ''items'' of JArr xs \<Rightarrow> xs | _ \<Rightarrow> []))"

subsection \<open>AI cards (collection aiCards)\<close>

text \<open>
  \<^verbatim>\<open>
  function shapeAiCardDoc(d) {
    const data = d.data() || {};
    return {
      id: d.id,
      title: data.title || '',
      image: data.image || data.imageUrl || '',
      prompt: data.prompt || '',
      link: data.link || '',
      gender: data.gender || 'Unisex',
      category: data.category || d.id,
      createdAt: data.createdAt ? toISO(data.createdAt) : null,
    };
  }
  \<close>
\<close>

definition shapeAiCardDoc :: "js_runtime \<Rightarrow> snapshot \<Rightarrow> jsval" where
  "shapeAiCardDoc rt d =
     (let data = js_or (snap_data d) (JObj []) in
      JObj
        [(''id'', JStr (snap_id d)),
         (''title'', text_or_empty data ''title''),
         (''image'', js_or (js_or (js_get data ''image'') (js_get data ''imageUrl'')) (JStr [])),
         (''prompt'', text_or_empty data ''prompt''),
         (''link'', text_or_empty data ''link''),
         (''gender'', js_or (js_get data ''gender'') (JStr ''Unisex'')),
         (''category'', js_or (js_get data ''category'') (JStr (snap_id d))),
         (''createdAt'', shape_createdAt rt data)])"

text \<open>
  \<^verbatim>\<open>
  app.post('/api/aicards', async (req, res) => {
    try {
      const payload = {
        title: String(req.body.title || ''),
        image: String(req.body.image || ''),
        prompt: String(req.body.prompt || ''),
        link: String(req.body.link || ''),
        gender: String(req.body.gender || 'Unisex'),
        category: String(req.body.category || '').trim(),
        createdAt: admin.firestore.FieldValue.serverTimestamp(),
      };
      if (!payload.title) return res.status(400).json({ error: 'title is required' });
      if (!payload.category) return res.status(400).json({ error: 'category is required' });
      const ref = await db.collection(COL_AICARDS).add(payload);
      const snap = await ref.get();
      res.status(201).json(shapeAiCardDoc(snap));
    } catch (err) {
      res.status(500).json({ error: 'Failed to create card' });
    }
  });
  \<close>
  \<open>newId\<close> is the identifier that the store generates for the added document.
\<close>

definition text_field :: "js_runtime \<Rightarrow> jsval \<Rightarrow> string \<Rightarrow> string \<Rightarrow> string option" where
  "text_field rt body k dflt = do { v \<leftarrow> js_prop body k; ToString rt (js_or v (JStr dflt)) }"

definition aicard_payload :: "js_runtime \<Rightarrow> jsval \<Rightarrow> obj option" where
  "aicard_payload rt body =
     do {
       title \<leftarrow> text_field rt body ''title'' [];
       image \<leftarrow> text_field rt body ''image'' [];
       prompt \<leftarrow> text_field rt body ''prompt'' [];
       link \<leftarrow> text_field rt body ''link'' [];
       gender \<leftarrow> text_field rt body ''gender'' ''Unisex'';
       category \<leftarrow> text_field rt body ''category'' [];
       Some [(''title'', JStr title), (''image'', JStr image), (''prompt'', JStr prompt),
             (''link'', JStr link), (''gender'', JStr gender),
             (''category'', JStr (trim category)), (''createdAt'', JServerTimestamp)]
     }"

definition create_aicard ::
  "js_runtime \<Rightarrow> int \<times> int \<Rightarrow> string \<Rightarrow> collection \<Rightarrow> jsval \<Rightarrow> response \<times> collection" where
  "create_aicard rt clock newId db body =
     (case aicard_payload rt body of
        None \<Rightarrow> (respond 500 (error_body ''Failed to create card''), db)
      | Some p \<Rightarrow>
          if \<not> truthy (js_get (JObj p) ''title'') then
            (respond 400 (error_body ''title is required''), db)
          else if \<not> truthy (js_get (JObj p) ''category'') then
            (respond 400 (error_body ''category is required''), db)
          else
            (let db' = store_add clock db newId p
             in (respond 201 (shapeAiCardDoc rt (store_get db' newId)), db')))"

text \<open>
  \<^verbatim>\<open>
  app.put('/api/aicards/:id', async (req, res) => {
    try {
      const ref = db.collection(COL_AICARDS).doc(req.params.id);
      const prev = await ref.get();
      if (!prev.exists) return res.status(404).json({ error: 'Not found' });
      // Keep original createdAt if not provided
      const updates = {
        ...(req.body.title != null ? { title: String(req.body.title) } : {}),
        ... image, prompt, link, gender, category ...
        createdAt: prev.data().createdAt || admin.firestore.FieldValue.serverTimestamp(),
      };
      await ref.set(updates, { merge: true });
      const fresh = await ref.get();
      res.json(shapeAiCardDoc(fresh));
    } catch (err) {
      res.status(500).json({ error: 'Failed to update card' });
    }
  });
  \<close>
\<close>

definition update_text :: "js_runtime \<Rightarrow> jsval \<Rightarrow> string \<Rightarrow> obj \<Rightarrow> obj option" where
  "update_text rt body k acc =
     do {
       v \<leftarrow> js_prop body k;
       (if \<not> nullish v then do { s \<leftarrow> ToString rt v; Some (obj_set acc k (JStr s)) }
        else Some acc)
     }"

definition aicard_updates :: "js_runtime \<Rightarrow> obj \<Rightarrow> jsval \<Rightarrow> obj option" where
  "aicard_updates rt stored body =
     do {
       acc \<leftarrow> update_text rt body ''title'' [];
       acc \<leftarrow> update_text rt body ''image'' acc;
       acc \<leftarrow> update_text rt body ''prompt'' acc;
       acc \<leftarrow> update_text rt body ''link'' acc;
       acc \<leftarrow> update_text rt body ''gender'' acc;
       acc \<leftarrow> update_text rt body ''category'' acc;
       Some (obj_set acc ''createdAt''
               (js_or (js_get (JObj stored) ''createdAt'') JServerTimestamp))
     }"

definition update_aicard ::
  "js_runtime \<Rightarrow> int \<times> int \<Rightarrow> collection \<Rightarrow> string \<Rightarrow> jsval \<Rightarrow> response \<times> collection" where
  "update_aicard rt clock db cardId body =
     (case db cardId of
        None \<Rightarrow> (respond 404 (error_body ''Not found''), db)
      | Some stored \<Rightarrow>
          (case aicard_updates rt stored body of
             None \<Rightarrow> (respond 500 (error_body ''Failed to update card''), db)
           | Some updates \<Rightarrow>
               (let db' = store_set_merge clock db cardId updates
                in (respond 200 (shapeAiCardDoc rt (store_get db' cardId)), db'))))"

section \<open>Field names and example inputs\<close>

text \<open>A group with two items, and a collection that holds it under the key \<^verbatim>\<open>g1\<close>.\<close>

definition ex_items :: "jsval list" where
  "ex_items =
     [JObj [(''id'', JStr ''a''), (''name'', JStr ''soap'')],
      JObj [(''id'', JStr ''b''), (''name'', JStr ''comb'')]]"

definition ex_group :: obj where
  "ex_group = [(''items'', JArr ex_items)]"

definition ex_groups :: collection where
  "ex_groups = Map.empty(''g1'' \<mapsto> ex_group)"

text \<open>The names of the fields of a product entry, \<^verbatim>\<open>id\<close> first.\<close>

definition product_keys :: "string list" where
  "product_keys = [''id'', ''brand'', ''name'', ''image'', ''link'', ''price'']"

text \<open>A product list: an entry without any field, and an entry with two fields.\<close>

definition ex_products :: "jsval list" where
  "ex_products = [JObj [], JObj [(''id'', JNum (Fin 7)), (''price'', JBool True)]]"

text \<open>The names of the counters of an image.\<close>

definition counter_keys :: "string list" where
  "counter_keys = [''likes'', ''saves'', ''shares'', ''views'']"

text \<open>A stored image whose \<^verbatim>\<open>likes\<close> counter is negative and whose other counters are absent.\<close>

definition ex_image_doc :: snapshot where
  "ex_image_doc =
     \<lparr> snap_id = ''img1'',
       snap_data = JObj [(''title'', JStr ''X''), (''likes'', JNum (Fin (- 5)))] \<rparr>"

definition ex_image_shaped :: jsval where
  "ex_image_shaped =
     JObj
       [(''_id'', JStr ''img1''), (''category'', JStr []), (''createdAt'', JNull),
        (''description'', JStr []), (''title'', JStr ''X''), (''id'', JUndef),
        (''imageUrl'', JStr []), (''thumbnailUrl'', JStr []), (''uploadDate'', JStr []),
        (''isPublic'', JBool False), (''likes'', JNum (Fin (- 5))), (''saves'', JNum (Fin 0)),
        (''shares'', JNum (Fin 0)), (''views'', JNum (Fin 0)), (''uploadedBy'', JStr []),
        (''tags'', JArr []),
        (''metadata'', JObj [(''format'', JStr []), (''size'', JUndef), (''width'', JUndef),
                             (''height'', JUndef)])]"




text \<open>
  The fields that the two sanitize functions recognize, and what the local helper
  \<^verbatim>\<open>set(k, v)\<close> leaves under a key that was not set before: nothing for \<^verbatim>\<open>undefined\<close>.
\<close>

definition present :: "jsval \<Rightarrow> jsval option" where
  "present v = (if v = JUndef then None else Some v)"

definition item_text_keys :: "string list" where
  "item_text_keys =
     [''category'', ''description'', ''image'', ''thumbnail'', ''instagramUrl'', ''uploadDate'',
      ''title'']"

definition item_keys :: "string list" where
  "item_keys = item_text_keys @ [''isSaved'', ''tags'', ''id'', ''createdAt'', ''content'', ''stats'']"

definition image_text_keys :: "string list" where
  "image_text_keys =
     [''category'', ''createdAt'', ''description'', ''title'', ''imageUrl'', ''uploadDate'',
      ''uploadedBy'']"

definition image_keys :: "string list" where
  "image_keys =
     image_text_keys @ counter_keys @ [''id'', ''thumbnailUrl'', ''isPublic'', ''tags'', ''metadata'']"

text \<open>
  The value that \<^verbatim>\<open>sanitizeImage\<close> passes to \<^verbatim>\<open>set\<close> for \<^verbatim>\<open>metadata\<close>, and
  \<^verbatim>\<open>sanitizeItem\<close> for \<^verbatim>\<open>content\<close> and \<^verbatim>\<open>stats\<close>: the collected map when it has a key,
  and nothing (\<^verbatim>\<open>undefined\<close>) when it has none or when the input is not an object.
\<close>

definition opt_field :: "obj \<Rightarrow> jsval" where
  "opt_field m = (if m \<noteq> [] then JObj m else JUndef)"

definition metadata_value :: "js_runtime \<Rightarrow> jsval \<Rightarrow> jsval option" where
  "metadata_value rt md =
     (if truthy md \<and> typeof_object md then map_option opt_field (metadata_fields rt md)
      else Some JUndef)"

definition stats_value :: "js_runtime \<Rightarrow> jsval \<Rightarrow> jsval option" where
  "stats_value rt stats =
     (if truthy stats \<and> typeof_object stats then map_option opt_field (stats_fields rt stats)
      else Some JUndef)"

definition content_value :: "js_runtime \<Rightarrow> jsval \<Rightarrow> jsval option" where
  "content_value rt body = map_option opt_field (item_content rt body)"

text \<open>
  Request bodies: the image of the scenario of the specification (a title and an image
  URL), and a feed item with a title, a flag that is not a boolean and the legacy
  top-level product list.
\<close>

definition ex_image_body :: jsval where
  "ex_image_body = JObj [(''title'', JStr ''X''), (''imageUrl'', JStr ''http://a/b.jpg'')]"

definition ex_image_out :: obj where
  "ex_image_out =
     [(''title'', JStr ''X''), (''imageUrl'', JStr ''http://a/b.jpg''),
      (''thumbnailUrl'', JStr ''http://a/b.jpg''), (''tags'', JArr [])]"

definition ex_item_body :: jsval where
  "ex_item_body =
     JObj [(''title'', JStr ''X''), (''isSaved'', JStr ''yes''), (''products'', JArr [])]"

definition ex_item_out :: obj where
  "ex_item_out =
     [(''title'', JStr ''X''), (''tags'', JArr []), (''content'', JObj [(''products'', JArr [])])]"

text \<open>
  A partial update: a request body that carries a title only, what both sanitize
  functions make of it, and a collection with a stored document that has tags.
\<close>

definition ex_title_body :: jsval where
  "ex_title_body = JObj [(''title'', JStr ''New'')]"

definition ex_title_out :: obj where
  "ex_title_out = [(''title'', JStr ''New''), (''tags'', JArr [])]"

definition ex_tagged_doc :: obj where
  "ex_tagged_doc =
     [(''title'', JStr ''Old''), (''tags'', JArr [JStr ''red'', JStr ''blue'']),
      (''uploadedBy'', JStr ''ann'')]"

definition ex_tagged_docs :: collection where
  "ex_tagged_docs = Map.empty(''d1'' \<mapsto> ex_tagged_doc)"

text \<open>
  AI cards: a request body that also carries a \<^verbatim>\<open>createdAt\<close> of its own, a stored card with
  a \<^verbatim>\<open>createdAt\<close> text and a stored card without one.
\<close>

definition ex_card_body :: jsval where
  "ex_card_body =
     JObj [(''title'', JStr ''T''), (''category'', JStr ''c''), (''createdAt'', JStr ''1999'')]"

definition ex_cards :: collection where
  "ex_cards =
     Map.empty(''k1'' \<mapsto> [(''title'', JStr ''T''), (''createdAt'', JStr ''2020-01-01T00:00:00Z'')],
               ''k2'' \<mapsto> [(''title'', JStr ''U'')])"

text \<open>
  Two request bodies appended to the group \<^verbatim>\<open>g1\<close> by two callers, the first with an
  \<^verbatim>\<open>id\<close> of its own, and the items that the handler makes of them at the times
  \<^verbatim>\<open>1700000000001\<close> and \<^verbatim>\<open>1700000000002\<close>.
\<close>

definition ex_body_A :: jsval where
  "ex_body_A = JObj [(''id'', JStr ''s1''), (''name'', JStr ''shampoo'')]"

definition ex_body_B :: jsval where
  "ex_body_B = JObj [(''name'', JStr ''brush'')]"

definition ex_item_A :: jsval where
  "ex_item_A = JObj [(''id'', JStr ''s1''), (''name'', JStr ''shampoo'')]"

definition ex_item_B :: jsval where
  "ex_item_B = JObj [(''name'', JStr ''brush''), (''id'', JStr ''1700000000002'')]"

text \<open>
  What the claim on concurrent appends asks of the outcomes of two calls: there is an
  outcome, and in each both calls were answered with their items, status 200, and both
  items are in the list of the group.
\<close>

definition both_landed ::
  "string \<Rightarrow> jsval \<Rightarrow> jsval \<Rightarrow> ((response \<times> response) \<times> collection) list \<Rightarrow> bool" where
  "both_landed g a b outs =
     (outs \<noteq> [] \<and>
      list_all (\<lambda>((r1, r2), db').
          r1 = respond 200 a \<and> r2 = respond 200 b \<and>
          a \<in> set (group_items db' g) \<and> b \<in> set (group_items db' g)) outs)"

section \<open>Properties of the group handlers\<close>

lemma filter_id_total:
  "\<forall>i\<in>set items. \<not> nullish i \<Longrightarrow>
   filter_id itemId items = Some (filter (\<lambda>i. js_get i ''id'' \<noteq> JStr itemId) items)"
  by (induction items) (simp_all add: js_prop_def)

lemma findIndex_id_absent:
  "\<forall>i\<in>set items. \<not> nullish i \<and> js_get i ''id'' \<noteq> JStr itemId \<Longrightarrow>
   findIndex_id itemId items = Some None"
  by (induction items) (simp_all add: js_prop_def)

lemma write_items:
  "write_fields clock stored [(''items'', JArr xs)] = obj_set stored ''items'' (JArr xs)"
  by (simp add: write_fields_def resolve_def)

lemma obj_set_idem: "obj_set (obj_set kvs k v) k v = obj_set kvs k v"
  by (simp add: obj_set_def)

text \<open>
  C10. A delete-item request on a group whose document does not exist is answered with
  404 (\<^verbatim>\<open>Group not found\<close>) and leaves the collection as it was.
\<close>

theorem delete_item_missing_group:
  "db groupId = None \<Longrightarrow>
   delete_item clock db groupId itemId = (respond 404 (error_body ''Group not found''), db)"
  by (simp add: delete_item_def delete_item_try_def)

theorem delete_item_missing_group_witness:
  "(Map.empty :: collection) ''g1'' = None \<and>
   delete_item (0, 0) Map.empty ''g1'' ''i1''
     = (respond 404 (error_body ''Group not found''), Map.empty)"
  using delete_item_missing_group [of Map.empty "''g1''" "(0, 0)" "''i1''"] by simp

lemma map_of_obj_set: "map_of (obj_set kvs k v) = (map_of kvs)(k \<mapsto> v)"
  by (simp add: obj_set_def update_conv')

lemma map_of_foldl_obj_set:
  "map_of (foldl (\<lambda>acc (k, x). obj_set acc k x) out es) = map_of out ++ map_of (rev es)"
proof (induction es arbitrary: out)
  case Nil
  then show ?case by simp
next
  case (Cons e es)
  obtain k x where e: "e = (k, x)" by (cases e)
  have "map_of (obj_set out k x) ++ map_of (rev es) = map_of out ++ map_of (rev es @ [(k, x)])"
    by (simp add: map_of_obj_set fun_eq_iff map_add_def split: option.splits)
  with Cons e show ?case by simp
qed

text \<open>
  The spread \<^verbatim>\<open>{ ...a, ...b }\<close> is a shallow merge: a key of \<open>b\<close> wins, every other key
  keeps its value.
\<close>

lemma map_of_spread:
  "map_of (spread out v) = map_of out ++ map_of (rev (own_entries v))"
  by (simp add: spread_def map_of_foldl_obj_set)

lemma map_of_rev_distinct:
  assumes "distinct (map fst xs)"
  shows "map_of (rev xs) = map_of xs"
proof
  fix k
  have d: "distinct (map fst (rev xs))"
    using assms by (simp add: rev_map [symmetric])
  show "map_of (rev xs) k = map_of xs k"
  proof (cases "map_of xs k")
    case None
    then have "k \<notin> fst ` set (rev xs)" by (simp add: map_of_eq_None_iff)
    then have "map_of (rev xs) k = None" by (rule map_of_eq_None_iff [THEN iffD2])
    with None show ?thesis by simp
  next
    case (Some v)
    then have "(k, v) \<in> set (rev xs)" by (auto dest: map_of_SomeD)
    with d have "map_of (rev xs) k = Some v" by (simp del: set_rev)
    with Some show ?thesis by simp
  qed
qed

lemma map_of_write_fields:
  "map_of (write_fields clock stored upd)
     = map_of stored ++ map_of (rev (map (\<lambda>(k, v). (k, resolve clock v)) upd))"
proof -
  have "foldl (\<lambda>acc (k, v). obj_set acc k (resolve clock v)) stored upd
          = foldl (\<lambda>acc (k, x). obj_set acc k x) stored (map (\<lambda>(k, v). (k, resolve clock v)) upd)"
    by (induction upd arbitrary: stored) (auto simp: case_prod_beta)
  then show ?thesis
    by (simp add: write_fields_def map_of_foldl_obj_set rev_map)
qed

lemma write_fields_lookup:
  assumes "distinct (map fst upd)"
  shows "map_of (write_fields clock stored upd) k
           = (case map_of upd k of Some v \<Rightarrow> Some (resolve clock v) | None \<Rightarrow> map_of stored k)"
proof -
  let ?u = "map (\<lambda>(k, v). (k, resolve clock v)) upd"
  have d: "distinct (map fst ?u)"
    using assms by (simp add: case_prod_beta comp_def)
  have "map_of (rev ?u) = map_of ?u"
    using d by (rule map_of_rev_distinct)
  moreover have "map_of ?u k = map_option (resolve clock) (map_of upd k)"
    by (simp add: map_of_map)
  ultimately show ?thesis
    by (simp add: map_of_write_fields map_add_def split: option.splits)
qed

lemma stored_items_after_write:
  "stored_items (obj_set stored ''items'' (JArr xs)) = Some xs"
  by (simp add: stored_items_def map_of_obj_set js_or_def)

text \<open>
  C5. Delete-item on an existing group is idempotent. The group document is one whose
  \<^verbatim>\<open>items\<close> field is absent or a list of items (no entry is \<^verbatim>\<open>null\<close>). The handler
  writes back the list without the entries whose \<^verbatim>\<open>id\<close> is the requested identifier
  and answers \<^verbatim>\<open>{deleted: true}\<close>, whether or not such an entry was there; the same request
  on the resulting collection gives the same answer and the same collection.
\<close>

theorem delete_item_idempotent:
  assumes "db groupId = Some stored"
    and "stored_items stored = Some items"
    and "\<forall>i\<in>set items. \<not> nullish i"
  shows "let kept = filter (\<lambda>i. js_get i ''id'' \<noteq> JStr itemId) items;
             db1 = db(groupId \<mapsto> obj_set stored ''items'' (JArr kept));
             deleted = respond 200 (JObj [(''deleted'', JBool True)])
         in delete_item clock db groupId itemId = (deleted, db1) \<and>
            delete_item clock db1 groupId itemId = (deleted, db1)"
proof -
  define kept where "kept = filter (\<lambda>i. js_get i ''id'' \<noteq> JStr itemId) items"
  define db1 where "db1 = db(groupId \<mapsto> obj_set stored ''items'' (JArr kept))"
  have first: "filter_id itemId items = Some kept"
    unfolding kept_def using assms(3) by (rule filter_id_total)
  have kept_ok: "\<forall>i\<in>set kept. \<not> nullish i"
    using assms(3) by (simp add: kept_def)
  have again: "filter_id itemId kept = Some kept"
    using filter_id_total [OF kept_ok, of itemId] by (simp add: kept_def)
  have one: "delete_item clock db groupId itemId
               = (respond 200 (JObj [(''deleted'', JBool True)]), db1)"
    using assms(1,2) first
    by (simp add: delete_item_def delete_item_try_def store_update_def write_items db1_def)
  have two: "delete_item clock db1 groupId itemId
               = (respond 200 (JObj [(''deleted'', JBool True)]), db1)"
    using again
    by (simp add: delete_item_def delete_item_try_def store_update_def write_items db1_def
        stored_items_after_write obj_set_idem)
  from one two show ?thesis
    by (simp add: Let_def kept_def db1_def)
qed

theorem delete_item_idempotent_witness:
  "ex_groups ''g1'' = Some ex_group \<and>
   stored_items ex_group = Some ex_items \<and>
   list_all (\<lambda>i. \<not> nullish i) ex_items \<and>
   delete_item (0, 0) ex_groups ''g1'' ''b''
     = (respond 200 (JObj [(''deleted'', JBool True)]),
        ex_groups(''g1'' \<mapsto> [(''items'', JArr [JObj [(''id'', JStr ''a''), (''name'', JStr ''soap'')]])])) \<and>
   delete_item (0, 0)
       (ex_groups(''g1'' \<mapsto> [(''items'', JArr [JObj [(''id'', JStr ''a''), (''name'', JStr ''soap'')]])]))
       ''g1'' ''b''
     = (respond 200 (JObj [(''deleted'', JBool True)]),
        ex_groups(''g1'' \<mapsto> [(''items'', JArr [JObj [(''id'', JStr ''a''), (''name'', JStr ''soap'')]])]))"
proof -
  have h1: "ex_groups ''g1'' = Some ex_group"
    by (simp add: ex_groups_def)
  have h2: "stored_items ex_group = Some ex_items"
    by (simp add: stored_items_def ex_group_def js_or_def)
  have h3: "\<forall>i\<in>set ex_items. \<not> nullish i"
    by (simp add: ex_items_def)
  have kept: "filter (\<lambda>i. js_get i ''id'' \<noteq> JStr ''b'') ex_items
                = [JObj [(''id'', JStr ''a''), (''name'', JStr ''soap'')]]"
    by (simp add: ex_items_def)
  have written: "obj_set ex_group ''items'' (JArr xs) = [(''items'', JArr xs)]" for xs
    by (simp add: obj_set_def ex_group_def)
  from delete_item_idempotent
         [where db = ex_groups and groupId = "''g1''" and stored = ex_group
            and items = ex_items and clock = "(0, 0)" and itemId = "''b''", OF h1 h2 h3]
       h1 h2 h3
  show ?thesis
    by (simp add: Let_def kept written list_all_iff)
qed

lemma findIndex_id_first:
  "\<forall>i\<in>set items. \<not> nullish i \<Longrightarrow> \<exists>i\<in>set items. js_get i ''id'' = JStr itemId \<Longrightarrow>
   findIndex_id itemId items
     = Some (Some (length (takeWhile (\<lambda>i. js_get i ''id'' \<noteq> JStr itemId) items)))"
  by (induction items) (auto simp: js_prop_def)

lemma takeWhile_stops: "\<exists>x\<in>set xs. \<not> P x \<Longrightarrow> length (takeWhile P xs) < length xs"
  by (induction xs) auto

text \<open>
  C4. Update-item answers 404 and leaves the collection as it was when the group document
  is absent, and when no item of the group (a list of items as in C5) has the requested
  identifier. Otherwise the first item with that identifier is replaced, at its position,
  by the shallow merge of the payload onto it, the whole list is written back, and the
  merged item is the answer.
\<close>

theorem update_item_cases:
  "(db groupId = None \<longrightarrow>
      update_item clock db groupId itemId body
        = (respond 404 (error_body ''Group not found''), db)) \<and>
   (db groupId = Some stored \<and> stored_items stored = Some items \<and>
    (\<forall>i\<in>set items. \<not> nullish i) \<and> (\<forall>i\<in>set items. js_get i ''id'' \<noteq> JStr itemId) \<longrightarrow>
      update_item clock db groupId itemId body
        = (respond 404 (error_body ''Item not found''), db)) \<and>
   (db groupId = Some stored \<and> stored_items stored = Some items \<and>
    (\<forall>i\<in>set items. \<not> nullish i) \<and> (\<exists>i\<in>set items. js_get i ''id'' = JStr itemId) \<longrightarrow>
      (let n = length (takeWhile (\<lambda>i. js_get i ''id'' \<noteq> JStr itemId) items);
           merged = spread (spread [] (items ! n)) body
       in n < length items \<and> js_get (items ! n) ''id'' = JStr itemId \<and>
          map_of merged
            = map_of (rev (own_entries (items ! n))) ++ map_of (rev (own_entries body)) \<and>
          update_item clock db groupId itemId body
            = (respond 200 (JObj merged),
               db(groupId \<mapsto> obj_set stored ''items'' (JArr (items[n := JObj merged]))))))"
proof (intro conjI impI)
  assume "db groupId = None"
  then show "update_item clock db groupId itemId body
        = (respond 404 (error_body ''Group not found''), db)"
    by (simp add: update_item_def update_item_try_def)
next
  assume a: "db groupId = Some stored \<and> stored_items stored = Some items \<and>
    (\<forall>i\<in>set items. \<not> nullish i) \<and> (\<forall>i\<in>set items. js_get i ''id'' \<noteq> JStr itemId)"
  then have "findIndex_id itemId items = Some None"
    by (intro findIndex_id_absent) simp
  with a show "update_item clock db groupId itemId body
        = (respond 404 (error_body ''Item not found''), db)"
    by (simp add: update_item_def update_item_try_def)
next
  assume a: "db groupId = Some stored \<and> stored_items stored = Some items \<and>
    (\<forall>i\<in>set items. \<not> nullish i) \<and> (\<exists>i\<in>set items. js_get i ''id'' = JStr itemId)"
  define n where "n = length (takeWhile (\<lambda>i. js_get i ''id'' \<noteq> JStr itemId) items)"
  define merged where "merged = spread (spread [] (items ! n)) body"
  have idx: "findIndex_id itemId items = Some (Some n)"
    unfolding n_def using a by (intro findIndex_id_first) simp_all
  have lt: "n < length items"
    unfolding n_def using a by (intro takeWhile_stops) auto
  have hit: "js_get (items ! n) ''id'' = JStr itemId"
    using nth_length_takeWhile [of "\<lambda>i. js_get i ''id'' \<noteq> JStr itemId" items] lt
    by (simp add: n_def)
  have m: "map_of merged
             = map_of (rev (own_entries (items ! n))) ++ map_of (rev (own_entries body))"
    by (simp add: merged_def map_of_spread)
  have "update_item clock db groupId itemId body
           = (respond 200 (JObj merged),
              db(groupId \<mapsto> obj_set stored ''items'' (JArr (items[n := JObj merged]))))"
    using a idx
    by (simp add: update_item_def update_item_try_def store_update_def write_items merged_def
        Let_def)
  with lt hit m show "let n = length (takeWhile (\<lambda>i. js_get i ''id'' \<noteq> JStr itemId) items);
           merged = spread (spread [] (items ! n)) body
       in n < length items \<and> js_get (items ! n) ''id'' = JStr itemId \<and>
          map_of merged
            = map_of (rev (own_entries (items ! n))) ++ map_of (rev (own_entries body)) \<and>
          update_item clock db groupId itemId body
            = (respond 200 (JObj merged),
               db(groupId \<mapsto> obj_set stored ''items'' (JArr (items[n := JObj merged]))))"
    by (simp add: Let_def n_def merged_def)
qed

theorem update_item_cases_witness:
  "(Map.empty :: collection) ''g1'' = None \<and>
   update_item (0, 0) Map.empty ''g1'' ''b'' (JObj [(''name'', JStr ''brush'')])
     = (respond 404 (error_body ''Group not found''), Map.empty) \<and>
   ex_groups ''g1'' = Some ex_group \<and> stored_items ex_group = Some ex_items \<and>
   list_all (\<lambda>i. \<not> nullish i) ex_items \<and>
   list_all (\<lambda>i. js_get i ''id'' \<noteq> JStr ''c'') ex_items \<and>
   update_item (0, 0) ex_groups ''g1'' ''c'' (JObj [(''name'', JStr ''brush'')])
     = (respond 404 (error_body ''Item not found''), ex_groups) \<and>
   list_ex (\<lambda>i. js_get i ''id'' = JStr ''b'') ex_items \<and>
   update_item (0, 0) ex_groups ''g1'' ''b'' (JObj [(''name'', JStr ''brush'')])
     = (respond 200 (JObj [(''id'', JStr ''b''), (''name'', JStr ''brush'')]),
        ex_groups(''g1'' \<mapsto>
          [(''items'', JArr [JObj [(''id'', JStr ''a''), (''name'', JStr ''soap'')],
                             JObj [(''id'', JStr ''b''), (''name'', JStr ''brush'')]])]))"
proof -
  have h0: "(Map.empty :: collection) ''g1'' = None" by simp
  have h1: "ex_groups ''g1'' = Some ex_group"
    by (simp add: ex_groups_def)
  have h2: "stored_items ex_group = Some ex_items"
    by (simp add: stored_items_def ex_group_def js_or_def)
  have h3: "\<forall>i\<in>set ex_items. \<not> nullish i"
    by (simp add: ex_items_def)
  have h4: "\<forall>i\<in>set ex_items. js_get i ''id'' \<noteq> JStr ''c''"
    by (simp add: ex_items_def)
  have h5: "\<exists>i\<in>set ex_items. js_get i ''id'' = JStr ''b''"
    by (simp add: ex_items_def)
  have n: "length (takeWhile (\<lambda>i. js_get i ''id'' \<noteq> JStr ''b'') ex_items) = Suc 0"
    by (simp add: ex_items_def)
  have item: "ex_items ! Suc 0 = JObj [(''id'', JStr ''b''), (''name'', JStr ''comb'')]"
    by (simp add: ex_items_def)
  have merged: "spread (spread [] (JObj [(''id'', JStr ''b''), (''name'', JStr ''comb'')]))
                  (JObj [(''name'', JStr ''brush'')])
                = [(''id'', JStr ''b''), (''name'', JStr ''brush'')]"
    by (simp add: spread_def obj_set_def)
  have upd: "ex_items[Suc 0 := x] = [JObj [(''id'', JStr ''a''), (''name'', JStr ''soap'')], x]" for x
    by (simp add: ex_items_def)
  have written: "obj_set ex_group ''items'' (JArr xs) = [(''items'', JArr xs)]" for xs
    by (simp add: obj_set_def ex_group_def)
  note t = update_item_cases [where clock = "(0, 0)" and body = "JObj [(''name'', JStr ''brush'')]"]
  have a: "update_item (0, 0) Map.empty ''g1'' ''b'' (JObj [(''name'', JStr ''brush'')])
     = (respond 404 (error_body ''Group not found''), Map.empty)"
    using t [where db = Map.empty and groupId = "''g1''" and itemId = "''b''", THEN conjunct1] h0
    by simp
  have b: "update_item (0, 0) ex_groups ''g1'' ''c'' (JObj [(''name'', JStr ''brush'')])
     = (respond 404 (error_body ''Item not found''), ex_groups)"
    using t [where db = ex_groups and groupId = "''g1''" and itemId = "''c''"
               and stored = ex_group and items = ex_items, THEN conjunct2, THEN conjunct1]
      h1 h2 h3 h4
    by simp
  have c: "update_item (0, 0) ex_groups ''g1'' ''b'' (JObj [(''name'', JStr ''brush'')])
     = (respond 200 (JObj [(''id'', JStr ''b''), (''name'', JStr ''brush'')]),
        ex_groups(''g1'' \<mapsto>
          [(''items'', JArr [JObj [(''id'', JStr ''a''), (''name'', JStr ''soap'')],
                             JObj [(''id'', JStr ''b''), (''name'', JStr ''brush'')]])]))"
    using t [where db = ex_groups and groupId = "''g1''" and itemId = "''b''"
               and stored = ex_group and items = ex_items, THEN conjunct2, THEN conjunct2]
      h1 h2 h3 h5
    by (simp add: Let_def n item merged upd written)
  from a b c h0 h1 h2 h3 h4 h5 show ?thesis
    by (simp add: list_all_iff list_ex_iff)
qed

subsection \<open>Stored values outside the data model\<close>

text \<open>
  A group document whose \<^verbatim>\<open>items\<close> is a truthy value other than a list, or a list with a
  \<^verbatim>\<open>null\<close> entry, is not written by the group handlers themselves. On such a document
  the callbacks throw, and the handlers answer 500. Neither handler writes unless it
  answers 200.
\<close>

lemma filter_id_null_entry: "\<exists>i\<in>set items. nullish i \<Longrightarrow> filter_id itemId items = None"
proof (induction items)
  case Nil
  then show ?case by simp
next
  case (Cons i rest)
  show ?case
  proof (cases "nullish i")
    case True
    then show ?thesis by (simp add: js_prop_def)
  next
    case False
    with Cons.prems have "\<exists>i\<in>set rest. nullish i" by simp
    then have "filter_id itemId rest = None" by (rule Cons.IH)
    then show ?thesis by (simp add: js_prop_def)
  qed
qed

lemma delete_item_outside_data_model:
  assumes "db groupId = Some stored"
    and "stored_items stored = None \<or>
         (\<exists>items. stored_items stored = Some items \<and> (\<exists>i\<in>set items. nullish i))"
  shows "delete_item clock db groupId itemId = (respond 500 (error_body ''Delete failed''), db)"
proof -
  have "delete_item_try clock db groupId itemId = None"
  proof (cases "stored_items stored")
    case None
    with assms(1) show ?thesis by (simp add: delete_item_try_def)
  next
    case (Some items)
    with assms(2) have "\<exists>i\<in>set items. nullish i" by simp
    then have "filter_id itemId items = None" by (rule filter_id_null_entry)
    with assms(1) Some show ?thesis by (simp add: delete_item_try_def)
  qed
  then show ?thesis
    by (simp add: delete_item_def)
qed

lemma update_item_outside_data_model:
  assumes "db groupId = Some stored" and "stored_items stored = None"
  shows "update_item clock db groupId itemId body
           = (respond 500 (error_body ''Update failed''), db)"
  using assms by (simp add: update_item_def update_item_try_def)

lemma delete_item_writes_only_on_200:
  "status (fst (delete_item clock db groupId itemId)) \<noteq> 200 \<Longrightarrow>
   snd (delete_item clock db groupId itemId) = db"
  by (auto simp: delete_item_def delete_item_try_def respond_def bind_eq_Some_conv
      split: option.splits)

lemma update_item_writes_only_on_200:
  "status (fst (update_item clock db groupId itemId body)) \<noteq> 200 \<Longrightarrow>
   snd (update_item clock db groupId itemId body) = db"
  by (auto simp: update_item_def update_item_try_def respond_def bind_eq_Some_conv Let_def
      split: option.splits)

section \<open>Properties of the normalization layer\<close>

lemma mapM_list_all2: "mapM f xs = Some ys \<Longrightarrow> list_all2 (\<lambda>x y. f x = Some y) xs ys"
  by (induction xs arbitrary: ys) (auto simp: bind_eq_Some_conv)

lemma map_of_drop_step:
  "distinct (map fst p) \<Longrightarrow>
   map_of (foldl (\<lambda>out (k, v). if v \<noteq> JUndef then obj_set out k v else out) acc p) k
     = (case map_of p k of
          Some v \<Rightarrow> (if v = JUndef then map_of acc k else Some v)
        | None \<Rightarrow> map_of acc k)"
proof (induction p arbitrary: acc)
  case Nil
  then show ?case by simp
next
  case (Cons e p)
  obtain k' v' where e: "e = (k', v')" by (cases e)
  from Cons.prems e have fresh: "map_of p k' = None"
    by (simp add: map_of_eq_None_iff)
  from Cons e fresh show ?case
    by (auto simp: map_of_obj_set split: option.splits)
qed

lemma product_text_result:
  "product_text rt p k = Some b \<Longrightarrow>
   (if b = JUndef then None else Some b)
     = (if nullish (js_oprop p k) then None else map_option JStr (ToString rt (js_oprop p k)))"
  by (auto simp: product_text_def js_prop_def js_oprop_def bind_eq_Some_conv split: if_splits)

lemma product_id_result:
  "product_id rt p = Some b \<Longrightarrow>
   (if b = JUndef then None else Some b)
     = (if nullish (js_oprop p ''id'') \<or> js_oprop p ''id'' = JStr [] then None
        else map_option JNum (ToNumber rt (js_oprop p ''id'')))"
  by (auto simp: product_id_def js_prop_def js_oprop_def bind_eq_Some_conv split: if_splits)

lemma product_entry:
  assumes "product_fields rt p = Some f"
  shows "\<exists>q. drop_undefined f = JObj q \<and>
           map_of q ''id''
             = (if nullish (js_oprop p ''id'') \<or> js_oprop p ''id'' = JStr [] then None
                else map_option JNum (ToNumber rt (js_oprop p ''id''))) \<and>
           (\<forall>k\<in>set (tl product_keys). map_of q k
             = (if nullish (js_oprop p k) then None
                else map_option JStr (ToString rt (js_oprop p k)))) \<and>
           dom (map_of q) \<subseteq> set product_keys"
proof -
  from assms obtain i b n g l c where
    i: "product_id rt p = Some i" and b: "product_text rt p ''brand'' = Some b" and
    n: "product_text rt p ''name'' = Some n" and g: "product_text rt p ''image'' = Some g" and
    l: "product_text rt p ''link'' = Some l" and c: "product_text rt p ''price'' = Some c" and
    f: "f = [(''id'', i), (''brand'', b), (''name'', n), (''image'', g), (''link'', l),
             (''price'', c)]"
    by (auto simp: product_fields_def bind_eq_Some_conv)
  define q where "q = foldl (\<lambda>out (k, v). if v \<noteq> JUndef then obj_set out k v else out) [] f"
  have d: "distinct (map fst f)" by (simp add: f)
  have look: "map_of q k = (case map_of f k of
          Some v \<Rightarrow> (if v = JUndef then None else Some v) | None \<Rightarrow> None)" for k
    unfolding q_def using map_of_drop_step [OF d, of "[]" k] by (simp split: option.splits)
  have "drop_undefined f = JObj q" by (simp add: drop_undefined_def q_def)
  moreover have "map_of q ''id''
             = (if nullish (js_oprop p ''id'') \<or> js_oprop p ''id'' = JStr [] then None
                else map_option JNum (ToNumber rt (js_oprop p ''id'')))"
    using product_id_result [OF i] by (simp add: look f)
  moreover have "\<forall>k\<in>set (tl product_keys). map_of q k
             = (if nullish (js_oprop p k) then None
                else map_option JStr (ToString rt (js_oprop p k)))"
    using product_text_result [OF b] product_text_result [OF n] product_text_result [OF g]
      product_text_result [OF l] product_text_result [OF c]
    by (simp add: look f product_keys_def)
  moreover have "dom (map_of q) \<subseteq> set product_keys"
  proof
    fix k assume "k \<in> dom (map_of q)"
    then have "map_of f k \<noteq> None"
      by (auto simp: look split: option.splits)
    then have "k \<in> fst ` set f"
      by (simp add: map_of_eq_None_iff)
    then show "k \<in> set product_keys"
      by (auto simp: f product_keys_def)
  qed
  ultimately show ?thesis by blast
qed


text \<open>
  C2 (as amended). The product-list coercion gives the empty list for an input that is not
  a list. For a list it keeps every entry, in order: the result has one map per input
  entry, and an entry in which all six fields are absent becomes the empty map. In each
  output entry \<^verbatim>\<open>id\<close> is \<^verbatim>\<open>Number(id)\<close> when the input \<^verbatim>\<open>id\<close> is neither absent,
  \<^verbatim>\<open>null\<close> nor the empty text, each other field is the text of the input field when that
  is neither absent nor \<^verbatim>\<open>null\<close>, and no other field occurs.
\<close>

theorem normProductsArray_entries:
  "(\<not> isArray arr \<longrightarrow> normProductsArray rt arr = Some (JArr [])) \<and>
   (normProductsArray rt (JArr ps) = Some r \<longrightarrow>
      (\<exists>qs. r = JArr (map JObj qs) \<and>
         list_all2
           (\<lambda>p q.
              map_of q ''id''
                = (if nullish (js_oprop p ''id'') \<or> js_oprop p ''id'' = JStr [] then None
                   else map_option JNum (ToNumber rt (js_oprop p ''id''))) \<and>
              (\<forall>k\<in>set (tl product_keys). map_of q k
                = (if nullish (js_oprop p k) then None
                   else map_option JStr (ToString rt (js_oprop p k)))) \<and>
              dom (map_of q) \<subseteq> set product_keys)
           ps qs))"
proof (intro conjI impI)
  assume "\<not> isArray arr"
  then show "normProductsArray rt arr = Some (JArr [])"
    by (cases arr) (simp_all add: normProductsArray_def)
next
  assume "normProductsArray rt (JArr ps) = Some r"
  then obtain fs where fs: "mapM (product_fields rt) ps = Some fs"
    and r: "r = JArr (map drop_undefined fs)"
    by (auto simp: normProductsArray_def bind_eq_Some_conv)
  let ?P = "\<lambda>p q.
              map_of q ''id''
                = (if nullish (js_oprop p ''id'') \<or> js_oprop p ''id'' = JStr [] then None
                   else map_option JNum (ToNumber rt (js_oprop p ''id''))) \<and>
              (\<forall>k\<in>set (tl product_keys). map_of q k
                = (if nullish (js_oprop p k) then None
                   else map_option JStr (ToString rt (js_oprop p k)))) \<and>
              dom (map_of q) \<subseteq> set product_keys"
  have "list_all2 (\<lambda>p f. product_fields rt p = Some f) ps fs"
    using fs by (rule mapM_list_all2)
  then have "list_all2 (\<lambda>p f. \<exists>q. drop_undefined f = JObj q \<and> ?P p q) ps fs"
    by (rule list_all2_mono) (rule product_entry)
  then have "\<exists>qs. map drop_undefined fs = map JObj qs \<and> list_all2 ?P ps qs"
  proof (induction ps fs rule: list_all2_induct)
    case Nil
    then show ?case by simp
  next
    case (Cons p ps f fs)
    then obtain q qs where "drop_undefined f = JObj q" "?P p q"
      "map drop_undefined fs = map JObj qs" "list_all2 ?P ps qs"
      by blast
    then show ?case
      by (intro exI[of _ "q # qs"]) simp
  qed
  with r show "\<exists>qs. r = JArr (map JObj qs) \<and> list_all2 ?P ps qs"
    by blast
qed

text \<open>
  C2 (as stated) fails: an entry without any field is not dropped, it is kept as the empty
  map.
\<close>

theorem normProductsArray_keeps_empty_entry:
  "normProductsArray example_rt (JArr [JObj []]) = Some (JArr [JObj []])"
  by (simp add: normProductsArray_def product_fields_def product_id_def product_text_def
      js_oprop_def drop_undefined_def)

theorem normProductsArray_entries_witness:
  "\<not> isArray JNull \<and>
   normProductsArray example_rt JNull = Some (JArr []) \<and>
   normProductsArray example_rt (JArr ex_products)
     = Some (JArr [JObj [], JObj [(''id'', JNum (Fin 7)), (''price'', JStr ''true'')]]) \<and>
   (\<exists>qs. JArr [JObj [], JObj [(''id'', JNum (Fin 7)), (''price'', JStr ''true'')]]
            = JArr (map JObj qs) \<and>
         list_all2
           (\<lambda>p q.
              map_of q ''id''
                = (if nullish (js_oprop p ''id'') \<or> js_oprop p ''id'' = JStr [] then None
                   else map_option JNum (ToNumber example_rt (js_oprop p ''id''))) \<and>
              (\<forall>k\<in>set (tl product_keys). map_of q k
                = (if nullish (js_oprop p k) then None
                   else map_option JStr (ToString example_rt (js_oprop p k)))) \<and>
              dom (map_of q) \<subseteq> set product_keys)
           ex_products qs)"
proof -
  have h0: "\<not> isArray JNull" by simp
  have h: "normProductsArray example_rt (JArr ex_products)
     = Some (JArr [JObj [], JObj [(''id'', JNum (Fin 7)), (''price'', JStr ''true'')]])"
    by (simp add: normProductsArray_def product_fields_def product_id_def product_text_def
        js_oprop_def js_prop_def drop_undefined_def obj_set_def ex_products_def)
  note t = normProductsArray_entries [where rt = example_rt]
  have a: "normProductsArray example_rt JNull = Some (JArr [])"
    using t [where arr = JNull, THEN conjunct1] h0 by (rule mp)
  note c = t [where ps = ex_products, THEN conjunct2, THEN mp, OF h]
  from h0 a h c show ?thesis
    by (intro conjI) assumption+
qed

lemma counter_result:
  "counter rt data k = Some c \<Longrightarrow>
   c = (if nullish (js_get data k) \<or> js_get data k = JStr [] then JNum (Fin 0)
        else case ToNumber rt (js_get data k) of
               Some (Fin q) \<Rightarrow> JNum (Fin q)
             | _ \<Rightarrow> JNum (Fin 0))"
  by (auto simp: counter_def numOrUndef_def js_coalesce_def bind_eq_Some_conv
      split: if_splits jsnum.splits)

lemma counter_finite: "counter rt data k = Some c \<Longrightarrow> \<exists>q. c = JNum (Fin q)"
  by (auto simp: counter_def numOrUndef_def js_coalesce_def bind_eq_Some_conv
      split: if_splits jsnum.splits elim: isFinite.elims)

text \<open>
  C3 (as amended). In the shaped read result of an image each of \<^verbatim>\<open>likes\<close>,
  \<^verbatim>\<open>saves\<close>, \<^verbatim>\<open>shares\<close> and \<^verbatim>\<open>views\<close> is present and is a finite number. It is 0
  when the stored field is absent, \<^verbatim>\<open>null\<close>, the empty text, or a value whose
  \<^verbatim>\<open>Number\<close> is not finite; otherwise it is \<^verbatim>\<open>Number\<close> of the stored value, which is
  negative for a negative stored value.
\<close>

theorem shapeImageDoc_counters:
  assumes "shapeImageDoc rt d = Some r"
  shows "\<forall>k\<in>set counter_keys.
           (\<exists>q. js_get r k = JNum (Fin q)) \<and>
           js_get r k
             = (let v = js_get (js_or (snap_data d) (JObj [])) k in
                if nullish v \<or> v = JStr [] then JNum (Fin 0)
                else case ToNumber rt v of
                       Some (Fin q) \<Rightarrow> JNum (Fin q)
                     | _ \<Rightarrow> JNum (Fin 0))"
proof -
  define data where "data = js_or (snap_data d) (JObj [])"
  from assms obtain likes saves shares views where
    c: "counter rt data ''likes'' = Some likes" "counter rt data ''saves'' = Some saves"
       "counter rt data ''shares'' = Some shares" "counter rt data ''views'' = Some views"
    and g: "js_get r ''likes'' = likes" "js_get r ''saves'' = saves"
       "js_get r ''shares'' = shares" "js_get r ''views'' = views"
    by (auto simp: shapeImageDoc_def Let_def bind_eq_Some_conv data_def)
  from c g show ?thesis
    using counter_result [of rt data] counter_finite [of rt data]
    by (simp add: counter_keys_def Let_def data_def [symmetric])
qed

lemma ex_image_doc_shaped: "shapeImageDoc example_rt ex_image_doc = Some ex_image_shaped"
  by (simp add: shapeImageDoc_def ex_image_doc_def ex_image_shaped_def Let_def js_or_def
      counter_def numOrUndef_def js_coalesce_def shape_tags_def normTags_def text_or_empty_def
      shape_createdAt_def)

theorem shapeImageDoc_counters_witness:
  "shapeImageDoc example_rt ex_image_doc = Some ex_image_shaped \<and>
   js_get ex_image_shaped ''likes'' = JNum (Fin (- 5)) \<and>
   js_get ex_image_shaped ''saves'' = JNum (Fin 0) \<and>
   js_get ex_image_shaped ''shares'' = JNum (Fin 0) \<and>
   js_get ex_image_shaped ''views'' = JNum (Fin 0)"
  using shapeImageDoc_counters [OF ex_image_doc_shaped] ex_image_doc_shaped
  by (simp add: counter_keys_def ex_image_doc_def js_or_def Let_def)

text \<open>
  C3 (as stated) fails: a stored \<^verbatim>\<open>likes\<close> of -5 is read back as -5, which is below 0.
\<close>

theorem shapeImageDoc_negative_counter:
  "shapeImageDoc example_rt ex_image_doc = Some ex_image_shaped \<and>
   js_get ex_image_shaped ''likes'' = JNum (Fin (- 5)) \<and> (- 5 :: rat) < 0"
  using ex_image_doc_shaped by (simp add: ex_image_shaped_def)





lemma toISO_null_or_text: "toISO rt c = JNull \<or> (\<exists>s. toISO rt c = JStr s)"
  by (cases c)
     (auto simp: toISO_def toISO_try_def js_oprop_def bind_eq_Some_conv
           split: option.splits if_splits)

text \<open>
  C8 (as amended). \<^verbatim>\<open>toISO\<close> returns for every input, and its result is \<^verbatim>\<open>null\<close> or a
  text. A falsy input (\<^verbatim>\<open>null\<close>, \<^verbatim>\<open>undefined\<close>, the empty text, 0) gives \<^verbatim>\<open>null\<close>;
  a text that is not empty is returned unchanged; a native timestamp gives the ISO-8601
  text of its date, or \<^verbatim>\<open>null\<close> when the date is invalid; a map with \<^verbatim>\<open>seconds\<close> gives
  the ISO-8601 text of the date at seconds * 1000 + floor(nanoseconds / 1e6) milliseconds,
  or \<^verbatim>\<open>null\<close> when a conversion throws or the date is invalid; every other input gives
  \<^verbatim>\<open>null\<close>.
\<close>

theorem toISO_cases:
  "(toISO rt c = JNull \<or> (\<exists>s. toISO rt c = JStr s)) \<and>
   (\<not> truthy c \<longrightarrow> toISO rt c = JNull) \<and>
   (s \<noteq> [] \<longrightarrow> toISO rt (JStr s) = JStr s) \<and>
   toISO rt (JTimestamp secs nanos)
     = (case TimestampToDate rt secs nanos of
          Some t \<Rightarrow> JStr (DateFormat rt t)
        | None \<Rightarrow> JNull) \<and>
   (\<not> typeof_function (js_get (JObj kvs) ''toDate'') \<and>
    \<not> nullish (js_get (JObj kvs) ''seconds'') \<longrightarrow>
      toISO rt (JObj kvs)
        = (case (ToNumber rt (js_get (JObj kvs) ''seconds''),
                 ToNumber rt (js_or (js_get (JObj kvs) ''nanoseconds'') (JNum (Fin 0)))) of
             (Some a, Some b) \<Rightarrow>
               (case new_Date (fadd rt (fmul rt a (Fin 1000))
                                       (math_floor (fdiv rt b (Fin 1000000)))) of
                  Some t \<Rightarrow> JStr (DateFormat rt t)
                | None \<Rightarrow> JNull)
           | _ \<Rightarrow> JNull)) \<and>
   (truthy c \<and> \<not> typeof_string c \<and> \<not> typeof_function (js_get c ''toDate'') \<and>
    nullish (js_get c ''seconds'') \<longrightarrow> toISO rt c = JNull)"
proof (intro conjI impI)
  show "toISO rt c = JNull \<or> (\<exists>s. toISO rt c = JStr s)"
    by (rule toISO_null_or_text)
next
  assume "\<not> truthy c"
  then show "toISO rt c = JNull"
    by (simp add: toISO_def toISO_try_def)
next
  assume "s \<noteq> []"
  then show "toISO rt (JStr s) = JStr s"
    by (simp add: toISO_def toISO_try_def)
next
  show "toISO rt (JTimestamp secs nanos)
     = (case TimestampToDate rt secs nanos of
          Some t \<Rightarrow> JStr (DateFormat rt t)
        | None \<Rightarrow> JNull)"
    by (simp add: toISO_def toISO_try_def js_oprop_def toISOString_def split: option.splits)
next
  assume "\<not> typeof_function (js_get (JObj kvs) ''toDate'') \<and>
    \<not> nullish (js_get (JObj kvs) ''seconds'')"
  then show "toISO rt (JObj kvs)
        = (case (ToNumber rt (js_get (JObj kvs) ''seconds''),
                 ToNumber rt (js_or (js_get (JObj kvs) ''nanoseconds'') (JNum (Fin 0)))) of
             (Some a, Some b) \<Rightarrow>
               (case new_Date (fadd rt (fmul rt a (Fin 1000))
                                       (math_floor (fdiv rt b (Fin 1000000)))) of
                  Some t \<Rightarrow> JStr (DateFormat rt t)
                | None \<Rightarrow> JNull)
           | _ \<Rightarrow> JNull)"
    by (simp add: toISO_def toISO_try_def js_oprop_def toISOString_def
        split: option.splits)
next
  assume "truthy c \<and> \<not> typeof_string c \<and> \<not> typeof_function (js_get c ''toDate'') \<and>
    nullish (js_get c ''seconds'')"
  then show "toISO rt c = JNull"
    by (cases c) (simp_all add: toISO_def toISO_try_def js_oprop_def)
qed

theorem toISO_cases_witness:
  "\<not> truthy JNull \<and> toISO example_rt JNull = JNull \<and>
   ''2024-02-01T13:45:00Z'' \<noteq> [] \<and>
   toISO example_rt (JStr ''2024-02-01T13:45:00Z'') = JStr ''2024-02-01T13:45:00Z'' \<and>
   toISO example_rt (JTimestamp 0 0) = JStr ''1970-01-01T00:00:00.000Z'' \<and>
   toISO example_rt (JObj [(''seconds'', JNum (Fin 0)), (''nanoseconds'', JNum (Fin 0))])
     = JStr ''1970-01-01T00:00:00.000Z'' \<and>
   toISO example_rt (JObj [(''seconds'', JNum NaN)]) = JNull \<and>
   toISO example_rt (JNum (Fin 5)) = JNull"
proof -
  note t = toISO_cases [where rt = example_rt]
  have a: "toISO example_rt JNull = JNull"
    using t [where c = JNull] by simp
  have b: "toISO example_rt (JStr ''2024-02-01T13:45:00Z'') = JStr ''2024-02-01T13:45:00Z''"
    using t [where s = "''2024-02-01T13:45:00Z''"] by simp
  have c: "toISO example_rt (JTimestamp 0 0) = JStr ''1970-01-01T00:00:00.000Z''"
    using t [where secs = 0 and nanos = 0] by (simp add: example_rt_def)
  have d: "toISO example_rt (JObj [(''seconds'', JNum (Fin 0)), (''nanoseconds'', JNum (Fin 0))])
     = JStr ''1970-01-01T00:00:00.000Z''"
    using t [where kvs = "[(''seconds'', JNum (Fin 0)), (''nanoseconds'', JNum (Fin 0))]"]
    by (simp add: example_rt_def js_or_def)
  have e: "toISO example_rt (JObj [(''seconds'', JNum NaN)]) = JNull"
    using t [where kvs = "[(''seconds'', JNum NaN)]"]
    by (simp add: example_rt_def js_or_def)
  have f: "toISO example_rt (JNum (Fin 5)) = JNull"
    using t [where c = "JNum (Fin 5)"] by simp
  from a b c d e f show ?thesis by simp
qed

text \<open>
  C8 (as stated) fails: the empty text is a text value, and it is not returned unchanged
  but turned into \<^verbatim>\<open>null\<close>.
\<close>

theorem toISO_empty_text: "toISO example_rt (JStr []) = JNull"
  by (simp add: toISO_def toISO_try_def)

lemma map_of_set_field:
  "map_of (set_field out k v) k' = (if k' = k \<and> v \<noteq> JUndef then Some v else map_of out k')"
  by (simp add: set_field_def map_of_obj_set)

lemma set_text_Some:
  "(set_text rt body k out = Some out')
     = (\<not> nullish body \<and> (\<exists>v. asString rt (js_get body k) = Some v \<and> out' = set_field out k v))"
  by (auto simp: set_text_def js_prop_def bind_eq_Some_conv)

lemma set_bool_Some:
  "(set_bool body k out = Some out')
     = (\<not> nullish body \<and> out' = set_field out k (asBool (js_get body k)))"
  by (auto simp: set_bool_def js_prop_def bind_eq_Some_conv)

lemma set_trimmed_Some:
  "(set_trimmed body k out = Some out')
     = (\<not> nullish body \<and> out' = set_field out k (trimmed_text (js_get body k)))"
  by (auto simp: set_trimmed_def js_prop_def bind_eq_Some_conv)

lemma set_number_Some:
  "(set_number rt body k out = Some out')
     = (\<not> nullish body \<and> (\<exists>v. numOrUndef rt (js_get body k) = Some v \<and> out' = set_field out k v))"
  by (auto simp: set_number_def js_prop_def bind_eq_Some_conv)

lemma set_tags_Some:
  "(set_tags rt body out = Some out')
     = (\<not> nullish body \<and> (\<exists>v. normTags rt (js_get body ''tags'') = Some v \<and> out' = set_field out ''tags'' v))"
  by (auto simp: set_tags_def js_prop_def bind_eq_Some_conv)

lemma set_thumbnailUrl_Some:
  "(set_thumbnailUrl rt body out = Some out')
     = (\<not> nullish body \<and>
        (\<exists>v. asString rt (js_coalesce (js_get body ''thumbnailUrl'') (js_get body ''imageUrl'')) = Some v \<and>
             out' = set_field out ''thumbnailUrl'' v))"
  by (auto simp: set_thumbnailUrl_def js_prop_def bind_eq_Some_conv)


lemma set_field_undef: "set_field out k JUndef = out"
  by (simp add: set_field_def)

lemma set_metadata_Some:
  "(set_metadata rt body out = Some out')
     = (\<not> nullish body \<and>
        (\<exists>v. metadata_value rt (js_get body ''metadata'') = Some v \<and>
             out' = set_field out ''metadata'' v))"
proof (cases "truthy (js_get body ''metadata'') \<and> typeof_object (js_get body ''metadata'')")
  case True
  have "(if m \<noteq> [] then set_field out ''metadata'' (JObj m) else out)
          = set_field out ''metadata'' (opt_field m)" for m
    by (simp add: opt_field_def set_field_undef)
  with True show ?thesis
    by (auto simp: set_metadata_def js_prop_def bind_eq_Some_conv metadata_value_def)
next
  case False
  then show ?thesis
    by (auto simp: set_metadata_def js_prop_def bind_eq_Some_conv metadata_value_def
        set_field_undef)
qed

lemma set_stats_Some:
  "(set_stats rt body out = Some out')
     = (\<not> nullish body \<and>
        (\<exists>v. stats_value rt (js_get body ''stats'') = Some v \<and>
             out' = set_field out ''stats'' v))"
proof (cases "truthy (js_get body ''stats'') \<and> typeof_object (js_get body ''stats'')")
  case True
  have "(if m \<noteq> [] then set_field out ''stats'' (JObj m) else out)
          = set_field out ''stats'' (opt_field m)" for m
    by (simp add: opt_field_def set_field_undef)
  with True show ?thesis
    by (auto simp: set_stats_def js_prop_def bind_eq_Some_conv stats_value_def)
next
  case False
  then show ?thesis
    by (auto simp: set_stats_def js_prop_def bind_eq_Some_conv stats_value_def
        set_field_undef)
qed

lemma item_content_nullish: "nullish body \<Longrightarrow> item_content rt body = None"
  by (simp add: item_content_def js_prop_def)

lemma set_content_Some:
  "(set_content rt body out = Some out')
     = (\<not> nullish body \<and>
        (\<exists>v. content_value rt body = Some v \<and> out' = set_field out ''content'' v))"
proof -
  have "(if m \<noteq> [] then set_field out ''content'' (JObj m) else out)
          = set_field out ''content'' (opt_field m)" for m
    by (simp add: opt_field_def set_field_undef)
  then show ?thesis
    using item_content_nullish [of body rt]
    by (cases "nullish body") (auto simp: set_content_def bind_eq_Some_conv content_value_def)
qed

lemma text_field_ok:
  "asString rt x = Some v \<Longrightarrow> map_of out k = present v \<Longrightarrow>
   (nullish x \<longrightarrow> map_of out k = None) \<and>
   (\<exists>v. asString rt x = Some v \<and> map_of out k = present v)"
  by (auto simp: asString_def present_def)

lemma sanitizeImage_Some:
  assumes "sanitizeImage rt arg = Some out"
  shows "let body = default_body arg; md = js_get body ''metadata'' in
     (\<exists>v. normTags rt (js_get body ''tags'') = Some v \<and> map_of out ''tags'' = present v) \<and>
     (\<forall>k\<in>set image_text_keys.
        (nullish (js_get body k) \<longrightarrow> map_of out k = None) \<and>
        (\<exists>v. asString rt (js_get body k) = Some v \<and> map_of out k = present v)) \<and>
     (nullish (js_get body ''thumbnailUrl'') \<and> nullish (js_get body ''imageUrl'')
        \<longrightarrow> map_of out ''thumbnailUrl'' = None) \<and>
     (\<exists>v. asString rt (js_coalesce (js_get body ''thumbnailUrl'') (js_get body ''imageUrl''))
             = Some v \<and> map_of out ''thumbnailUrl'' = present v) \<and>
     map_of out ''id'' = present (trimmed_text (js_get body ''id'')) \<and>
     map_of out ''isPublic'' = present (asBool (js_get body ''isPublic'')) \<and>
     (\<forall>k\<in>set counter_keys.
        \<exists>v. numOrUndef rt (js_get body k) = Some v \<and> map_of out k = present v) \<and>
     (\<not> (truthy md \<and> typeof_object md) \<longrightarrow> map_of out ''metadata'' = None) \<and>
     (\<exists>v. metadata_value rt md = Some v \<and> map_of out ''metadata'' = present v) \<and>
     dom (map_of out) \<subseteq> set image_keys"
proof -
  define body where "body = default_body arg"
  from assms obtain v1 v2 v3 v4 v6 v7 v8 v10 v11 v12 v13 v14 v15 v16 where
    t: "asString rt (js_get body ''category'') = Some v1"
       "asString rt (js_get body ''createdAt'') = Some v2"
       "asString rt (js_get body ''description'') = Some v3"
       "asString rt (js_get body ''title'') = Some v4"
       "asString rt (js_get body ''imageUrl'') = Some v6"
       "asString rt (js_get body ''uploadDate'') = Some v8"
       "asString rt (js_get body ''uploadedBy'') = Some v14"
    and th: "asString rt (js_coalesce (js_get body ''thumbnailUrl'') (js_get body ''imageUrl''))
               = Some v7"
    and n: "numOrUndef rt (js_get body ''likes'') = Some v10"
       "numOrUndef rt (js_get body ''saves'') = Some v11"
       "numOrUndef rt (js_get body ''shares'') = Some v12"
       "numOrUndef rt (js_get body ''views'') = Some v13"
    and tg: "normTags rt (js_get body ''tags'') = Some v15"
    and md: "metadata_value rt (js_get body ''metadata'') = Some v16"
    and out: "out = set_field (set_field (set_field (set_field (set_field (set_field (set_field
               (set_field (set_field (set_field (set_field (set_field (set_field (set_field
               (set_field (set_field [] ''category'' v1) ''createdAt'' v2) ''description'' v3)
               ''title'' v4) ''id'' (trimmed_text (js_get body ''id''))) ''imageUrl'' v6)
               ''thumbnailUrl'' v7) ''uploadDate'' v8)
               ''isPublic'' (asBool (js_get body ''isPublic''))) ''likes'' v10) ''saves'' v11)
               ''shares'' v12) ''views'' v13) ''uploadedBy'' v14) ''tags'' v15) ''metadata'' v16"
    by (simp add: sanitizeImage_def Let_def bind_eq_Some_conv set_text_Some set_bool_Some
      set_trimmed_Some set_number_Some set_tags_Some set_thumbnailUrl_Some set_metadata_Some
      body_def [symmetric]) blast
  have look: "map_of out ''category'' = present v1" "map_of out ''createdAt'' = present v2"
    "map_of out ''description'' = present v3" "map_of out ''title'' = present v4"
    "map_of out ''imageUrl'' = present v6" "map_of out ''uploadDate'' = present v8"
    "map_of out ''uploadedBy'' = present v14" "map_of out ''thumbnailUrl'' = present v7"
    "map_of out ''likes'' = present v10" "map_of out ''saves'' = present v11"
    "map_of out ''shares'' = present v12" "map_of out ''views'' = present v13"
    "map_of out ''metadata'' = present v16"
    "map_of out ''id'' = present (trimmed_text (js_get body ''id''))"
    "map_of out ''isPublic'' = present (asBool (js_get body ''isPublic''))"
    "map_of out ''tags'' = present v15"
    by (simp_all add: out map_of_set_field present_def)
  have texts: "\<forall>k\<in>set image_text_keys.
        (nullish (js_get body k) \<longrightarrow> map_of out k = None) \<and>
        (\<exists>v. asString rt (js_get body k) = Some v \<and> map_of out k = present v)"
    using text_field_ok [OF t(1) look(1)] text_field_ok [OF t(2) look(2)]
      text_field_ok [OF t(3) look(3)] text_field_ok [OF t(4) look(4)]
      text_field_ok [OF t(5) look(5)] text_field_ok [OF t(6) look(6)]
      text_field_ok [OF t(7) look(7)]
    unfolding image_text_keys_def by simp
  have thumb: "nullish (js_get body ''thumbnailUrl'') \<and> nullish (js_get body ''imageUrl'')
        \<longrightarrow> map_of out ''thumbnailUrl'' = None"
    using th by (auto simp: look present_def js_coalesce_def asString_def)
  have nums: "\<forall>k\<in>set counter_keys.
        \<exists>v. numOrUndef rt (js_get body k) = Some v \<and> map_of out k = present v"
    using n by (simp add: counter_keys_def look)
  have meta: "\<not> (truthy (js_get body ''metadata'') \<and> typeof_object (js_get body ''metadata''))
                \<longrightarrow> map_of out ''metadata'' = None"
    using md by (auto simp: look present_def metadata_value_def split: if_splits)
  have keys: "dom (map_of out) \<subseteq> set image_keys"
  proof
    fix k assume "k \<in> dom (map_of out)"
    then have "map_of out k \<noteq> None" by auto
    then show "k \<in> set image_keys"
      unfolding out map_of_set_field image_keys_def image_text_keys_def counter_keys_def
      by (simp split: if_splits)
  qed
  from tg texts thumb th nums meta md keys show ?thesis
    by (simp add: Let_def body_def [symmetric] look)
qed


lemma content_absent:
  assumes "\<not> nullish body"
    and "\<not> (truthy (js_get body ''content'') \<and> typeof_object (js_get body ''content''))"
    and "\<not> isArray (js_get body ''products'')"
  shows "content_value rt body = Some JUndef"
proof -
  have "\<not> isArray (js_oprop (js_oprop body ''content'') ''products'')"
    using assms(1,2) by (cases "js_get body ''content''") (auto simp: js_oprop_def)
  with assms show ?thesis
    by (auto simp: content_value_def item_content_def incomingProducts_def js_prop_def
        opt_field_def)
qed

lemma sanitizeItem_Some:
  assumes "sanitizeItem rt arg = Some out"
  shows "let body = default_body arg in
     (\<exists>v. normTags rt (js_get body ''tags'') = Some v \<and> map_of out ''tags'' = present v) \<and>
     (\<forall>k\<in>set item_text_keys.
        (nullish (js_get body k) \<longrightarrow> map_of out k = None) \<and>
        (\<exists>v. asString rt (js_get body k) = Some v \<and> map_of out k = present v)) \<and>
     map_of out ''isSaved'' = present (asBool (js_get body ''isSaved'')) \<and>
     map_of out ''id'' = present (trimmed_text (js_get body ''id'')) \<and>
     map_of out ''createdAt'' = present (trimmed_text (js_get body ''createdAt'')) \<and>
     (\<not> (truthy (js_get body ''content'') \<and> typeof_object (js_get body ''content'')) \<and>
      \<not> isArray (js_get body ''products'') \<longrightarrow> map_of out ''content'' = None) \<and>
     (\<exists>v. content_value rt body = Some v \<and> map_of out ''content'' = present v) \<and>
     (\<not> (truthy (js_get body ''stats'') \<and> typeof_object (js_get body ''stats''))
        \<longrightarrow> map_of out ''stats'' = None) \<and>
     (\<exists>v. stats_value rt (js_get body ''stats'') = Some v \<and> map_of out ''stats'' = present v) \<and>
     dom (map_of out) \<subseteq> set item_keys"
proof -
  define body where "body = default_body arg"
  from assms obtain v1 v2 v3 v4 v5 v6 v7 v9 v12 v13 where
    nb: "\<not> nullish body"
    and t: "asString rt (js_get body ''category'') = Some v1"
       "asString rt (js_get body ''description'') = Some v2"
       "asString rt (js_get body ''image'') = Some v3"
       "asString rt (js_get body ''thumbnail'') = Some v4"
       "asString rt (js_get body ''instagramUrl'') = Some v5"
       "asString rt (js_get body ''uploadDate'') = Some v6"
       "asString rt (js_get body ''title'') = Some v7"
    and tg: "normTags rt (js_get body ''tags'') = Some v9"
    and ct: "content_value rt body = Some v12"
    and st: "stats_value rt (js_get body ''stats'') = Some v13"
    and out: "out = set_field (set_field (set_field (set_field (set_field (set_field (set_field
               (set_field (set_field (set_field (set_field (set_field (set_field []
               ''category'' v1) ''description'' v2) ''image'' v3) ''thumbnail'' v4)
               ''instagramUrl'' v5) ''uploadDate'' v6) ''title'' v7)
               ''isSaved'' (asBool (js_get body ''isSaved''))) ''tags'' v9)
               ''id'' (trimmed_text (js_get body ''id'')))
               ''createdAt'' (trimmed_text (js_get body ''createdAt''))) ''content'' v12)
               ''stats'' v13"
    by (simp add: sanitizeItem_def Let_def bind_eq_Some_conv set_text_Some set_bool_Some
      set_trimmed_Some set_tags_Some set_content_Some set_stats_Some
      body_def [symmetric]) blast
  have look: "map_of out ''category'' = present v1" "map_of out ''description'' = present v2"
    "map_of out ''image'' = present v3" "map_of out ''thumbnail'' = present v4"
    "map_of out ''instagramUrl'' = present v5" "map_of out ''uploadDate'' = present v6"
    "map_of out ''title'' = present v7"
    "map_of out ''isSaved'' = present (asBool (js_get body ''isSaved''))"
    "map_of out ''id'' = present (trimmed_text (js_get body ''id''))"
    "map_of out ''createdAt'' = present (trimmed_text (js_get body ''createdAt''))"
    "map_of out ''content'' = present v12" "map_of out ''stats'' = present v13"
    "map_of out ''tags'' = present v9"
    by (simp_all add: out map_of_set_field present_def)
  have texts: "\<forall>k\<in>set item_text_keys.
        (nullish (js_get body k) \<longrightarrow> map_of out k = None) \<and>
        (\<exists>v. asString rt (js_get body k) = Some v \<and> map_of out k = present v)"
    using text_field_ok [OF t(1) look(1)] text_field_ok [OF t(2) look(2)]
      text_field_ok [OF t(3) look(3)] text_field_ok [OF t(4) look(4)]
      text_field_ok [OF t(5) look(5)] text_field_ok [OF t(6) look(6)]
      text_field_ok [OF t(7) look(7)]
    unfolding item_text_keys_def by simp
  have stats: "\<not> (truthy (js_get body ''stats'') \<and> typeof_object (js_get body ''stats''))
                \<longrightarrow> map_of out ''stats'' = None"
    using st by (auto simp: look present_def stats_value_def split: if_splits)
  have keys: "dom (map_of out) \<subseteq> set item_keys"
  proof
    fix k assume "k \<in> dom (map_of out)"
    then have "map_of out k \<noteq> None" by auto
    then show "k \<in> set item_keys"
      unfolding out map_of_set_field item_keys_def item_text_keys_def
      by (simp split: if_splits)
  qed
  have content: "\<not> (truthy (js_get body ''content'') \<and> typeof_object (js_get body ''content'')) \<and>
      \<not> isArray (js_get body ''products'') \<longrightarrow> map_of out ''content'' = None"
    using content_absent [OF nb, where rt = rt] ct by (auto simp: look present_def)
  from tg texts content ct stats st keys show ?thesis
    by (simp add: Let_def body_def [symmetric] look)
qed

lemma stat_field_lookup:
  assumes "stat_field rt stats k a = Some b"
  shows "\<exists>n. ToNumber rt (js_get stats k) = Some n \<and>
             map_of b = (if isNaN n then map_of a else (map_of a)(k \<mapsto> JNum n))"
proof -
  from assms obtain n where n: "ToNumber rt (js_get stats k) = Some n"
    by (auto simp: stat_field_def bind_eq_Some_conv)
  show ?thesis
  proof (cases "isNaN n")
    case True
    with assms n show ?thesis by (simp add: stat_field_def)
  next
    case False
    with assms n have "b = obj_set a k (JNum n)" by (simp add: stat_field_def)
    with n False show ?thesis by (simp add: map_of_obj_set)
  qed
qed

lemma stats_fields_lookup:
  assumes "stats_fields rt stats = Some s" and "k \<in> {''views'', ''saves'', ''shares''}"
  shows "\<exists>n. ToNumber rt (js_get stats k) = Some n \<and>
             map_of s k = (if isNaN n then None else Some (JNum n))"
proof -
  from assms(1) obtain a b where
    "stat_field rt stats ''views'' [] = Some a" "stat_field rt stats ''saves'' a = Some b"
    "stat_field rt stats ''shares'' b = Some s"
    by (auto simp: stats_fields_def bind_eq_Some_conv)
  then obtain n1 n2 n3 where
    n: "ToNumber rt (js_get stats ''views'') = Some n1"
       "ToNumber rt (js_get stats ''saves'') = Some n2"
       "ToNumber rt (js_get stats ''shares'') = Some n3"
    and m: "map_of a = (if isNaN n1 then map_of [] else (map_of [])(''views'' \<mapsto> JNum n1))"
       "map_of b = (if isNaN n2 then map_of a else (map_of a)(''saves'' \<mapsto> JNum n2))"
       "map_of s = (if isNaN n3 then map_of b else (map_of b)(''shares'' \<mapsto> JNum n3))"
    by (blast dest: stat_field_lookup)
  from assms(2) consider "k = ''views''" | "k = ''saves''" | "k = ''shares''" by auto
  then show ?thesis
  proof cases
    case 1
    with n(1) m show ?thesis by simp
  next
    case 2
    with n(2) m show ?thesis by simp
  next
    case 3
    with n(3) m show ?thesis by simp
  qed
qed

lemma metadata_fields_lookup:
  assumes "metadata_fields rt md = Some m"
  shows "map_of m ''format''
           = (if typeof_string (js_get md ''format'') then Some (js_get md ''format'') else None) \<and>
         (\<forall>k\<in>{''size'', ''width'', ''height''}.
            \<exists>v. numOrUndef rt (js_get md k) = Some v \<and> map_of m k = present v)"
proof -
  define m0 where "m0 = (if typeof_string (js_get md ''format'')
                then obj_set [] ''format'' (js_get md ''format'') else [])"
  from assms obtain v1 v2 v3 where
    v: "numOrUndef rt (js_get md ''size'') = Some v1" "numOrUndef rt (js_get md ''width'') = Some v2"
       "numOrUndef rt (js_get md ''height'') = Some v3"
    and m: "m = set_field (set_field (set_field m0 ''size'' v1) ''width'' v2) ''height'' v3"
    by (auto simp: metadata_fields_def bind_eq_Some_conv Let_def m0_def)
  have m0: "map_of m0 ''format''
              = (if typeof_string (js_get md ''format'') then Some (js_get md ''format'') else None)"
    "map_of m0 ''size'' = None" "map_of m0 ''width'' = None" "map_of m0 ''height'' = None"
    by (simp_all add: m0_def map_of_obj_set)
  have "map_of m ''format''
           = (if typeof_string (js_get md ''format'') then Some (js_get md ''format'') else None)"
    by (simp add: m map_of_set_field m0)
  moreover have "map_of m ''size'' = present v1" "map_of m ''width'' = present v2"
    "map_of m ''height'' = present v3"
    by (simp_all add: m map_of_set_field m0 present_def)
  ultimately show ?thesis
    using v by simp
qed

text \<open>
  What the two sanitize functions return, field by field. Whenever \<^verbatim>\<open>sanitizeImage\<close> or
  \<^verbatim>\<open>sanitizeItem\<close> returns, the returned map holds recognized fields only, and each
  recognized field holds exactly what its coercion returned: it is absent when the
  coercion returned \<^verbatim>\<open>undefined\<close>. So a text field that is absent or \<^verbatim>\<open>null\<close> in the
  body is absent from the result, and \<^verbatim>\<open>metadata\<close> and \<^verbatim>\<open>stats\<close> are absent when the
  field of the body is not an object. In the two special cases of the specification,
  \<^verbatim>\<open>thumbnailUrl\<close> is coerced from \<^verbatim>\<open>imageUrl\<close> when \<^verbatim>\<open>thumbnailUrl\<close> is absent or
  \<^verbatim>\<open>null\<close>, so it is absent from the result when both are; and the \<^verbatim>\<open>content\<close> of a
  feed item is absent when \<^verbatim>\<open>content\<close> is not an object and the body has no top-level
  list \<^verbatim>\<open>products\<close>. The field \<^verbatim>\<open>tags\<close> holds what \<^verbatim>\<open>normTags\<close> returned.
\<close>

lemma sanitize_fields:
  "(sanitizeImage rt arg = Some out \<longrightarrow>
     (let body = default_body arg; md = js_get body ''metadata'' in
      (\<exists>v. normTags rt (js_get body ''tags'') = Some v \<and> map_of out ''tags'' = present v) \<and>
      (\<forall>k\<in>set image_text_keys.
         (nullish (js_get body k) \<longrightarrow> map_of out k = None) \<and>
         (\<exists>v. asString rt (js_get body k) = Some v \<and> map_of out k = present v)) \<and>
      (nullish (js_get body ''thumbnailUrl'') \<and> nullish (js_get body ''imageUrl'')
         \<longrightarrow> map_of out ''thumbnailUrl'' = None) \<and>
      (\<exists>v. asString rt (js_coalesce (js_get body ''thumbnailUrl'') (js_get body ''imageUrl''))
              = Some v \<and> map_of out ''thumbnailUrl'' = present v) \<and>
      map_of out ''id'' = present (trimmed_text (js_get body ''id'')) \<and>
      map_of out ''isPublic'' = present (asBool (js_get body ''isPublic'')) \<and>
      (\<forall>k\<in>set counter_keys.
         \<exists>v. numOrUndef rt (js_get body k) = Some v \<and> map_of out k = present v) \<and>
      (\<not> (truthy md \<and> typeof_object md) \<longrightarrow> map_of out ''metadata'' = None) \<and>
      (\<exists>v. metadata_value rt md = Some v \<and> map_of out ''metadata'' = present v) \<and>
      dom (map_of out) \<subseteq> set image_keys)) \<and>
   (sanitizeItem rt arg = Some out' \<longrightarrow>
     (let body = default_body arg in
      (\<exists>v. normTags rt (js_get body ''tags'') = Some v \<and> map_of out' ''tags'' = present v) \<and>
      (\<forall>k\<in>set item_text_keys.
         (nullish (js_get body k) \<longrightarrow> map_of out' k = None) \<and>
         (\<exists>v. asString rt (js_get body k) = Some v \<and> map_of out' k = present v)) \<and>
      map_of out' ''isSaved'' = present (asBool (js_get body ''isSaved'')) \<and>
      map_of out' ''id'' = present (trimmed_text (js_get body ''id'')) \<and>
      map_of out' ''createdAt'' = present (trimmed_text (js_get body ''createdAt'')) \<and>
      (\<not> (truthy (js_get body ''content'') \<and> typeof_object (js_get body ''content'')) \<and>
       \<not> isArray (js_get body ''products'') \<longrightarrow> map_of out' ''content'' = None) \<and>
      (\<exists>v. content_value rt body = Some v \<and> map_of out' ''content'' = present v) \<and>
      (\<not> (truthy (js_get body ''stats'') \<and> typeof_object (js_get body ''stats''))
         \<longrightarrow> map_of out' ''stats'' = None) \<and>
      (\<exists>v. stats_value rt (js_get body ''stats'') = Some v \<and> map_of out' ''stats'' = present v) \<and>
      dom (map_of out') \<subseteq> set item_keys))"
proof (intro conjI impI)
  assume "sanitizeImage rt arg = Some out"
  then show "let body = default_body arg; md = js_get body ''metadata'' in
      (\<exists>v. normTags rt (js_get body ''tags'') = Some v \<and> map_of out ''tags'' = present v) \<and>
      (\<forall>k\<in>set image_text_keys.
         (nullish (js_get body k) \<longrightarrow> map_of out k = None) \<and>
         (\<exists>v. asString rt (js_get body k) = Some v \<and> map_of out k = present v)) \<and>
      (nullish (js_get body ''thumbnailUrl'') \<and> nullish (js_get body ''imageUrl'')
         \<longrightarrow> map_of out ''thumbnailUrl'' = None) \<and>
      (\<exists>v. asString rt (js_coalesce (js_get body ''thumbnailUrl'') (js_get body ''imageUrl''))
              = Some v \<and> map_of out ''thumbnailUrl'' = present v) \<and>
      map_of out ''id'' = present (trimmed_text (js_get body ''id'')) \<and>
      map_of out ''isPublic'' = present (asBool (js_get body ''isPublic'')) \<and>
      (\<forall>k\<in>set counter_keys.
         \<exists>v. numOrUndef rt (js_get body k) = Some v \<and> map_of out k = present v) \<and>
      (\<not> (truthy md \<and> typeof_object md) \<longrightarrow> map_of out ''metadata'' = None) \<and>
      (\<exists>v. metadata_value rt md = Some v \<and> map_of out ''metadata'' = present v) \<and>
      dom (map_of out) \<subseteq> set image_keys"
    by (rule sanitizeImage_Some)
next
  assume "sanitizeItem rt arg = Some out'"
  then show "let body = default_body arg in
      (\<exists>v. normTags rt (js_get body ''tags'') = Some v \<and> map_of out' ''tags'' = present v) \<and>
      (\<forall>k\<in>set item_text_keys.
         (nullish (js_get body k) \<longrightarrow> map_of out' k = None) \<and>
         (\<exists>v. asString rt (js_get body k) = Some v \<and> map_of out' k = present v)) \<and>
      map_of out' ''isSaved'' = present (asBool (js_get body ''isSaved'')) \<and>
      map_of out' ''id'' = present (trimmed_text (js_get body ''id'')) \<and>
      map_of out' ''createdAt'' = present (trimmed_text (js_get body ''createdAt'')) \<and>
      (\<not> (truthy (js_get body ''content'') \<and> typeof_object (js_get body ''content'')) \<and>
       \<not> isArray (js_get body ''products'') \<longrightarrow> map_of out' ''content'' = None) \<and>
      (\<exists>v. content_value rt body = Some v \<and> map_of out' ''content'' = present v) \<and>
      (\<not> (truthy (js_get body ''stats'') \<and> typeof_object (js_get body ''stats''))
         \<longrightarrow> map_of out' ''stats'' = None) \<and>
      (\<exists>v. stats_value rt (js_get body ''stats'') = Some v \<and> map_of out' ''stats'' = present v) \<and>
      dom (map_of out') \<subseteq> set item_keys"
    by (rule sanitizeItem_Some)
qed

lemma ex_image_body_sanitized: "sanitizeImage example_rt ex_image_body = Some ex_image_out"
  by (simp add: sanitizeImage_def ex_image_body_def ex_image_out_def default_body_def Let_def
      set_text_def set_bool_def set_trimmed_def set_number_def set_tags_def set_thumbnailUrl_def
      set_metadata_def js_prop_def asString_def numOrUndef_def normTags_def js_coalesce_def
      set_field_def obj_set_def)

lemma ex_item_body_sanitized: "sanitizeItem example_rt ex_item_body = Some ex_item_out"
  by (simp add: sanitizeItem_def ex_item_body_def ex_item_out_def default_body_def Let_def
      set_text_def set_bool_def set_trimmed_def set_tags_def set_content_def set_stats_def
      item_content_def incomingProducts_def normProductsArray_def js_prop_def js_oprop_def
      asString_def normTags_def set_field_def obj_set_def)

text \<open>
  The two example bodies: the image with a title and an image URL gets the thumbnail of
  the special case and none of the fields that it does not carry, but for \<^verbatim>\<open>tags\<close>;
  likewise the feed item.
\<close>

lemma sanitize_fields_example:
  "sanitizeImage example_rt ex_image_body = Some ex_image_out \<and>
   map_of ex_image_out ''description'' = None \<and>
   map_of ex_image_out ''title'' = present (JStr ''X'') \<and>
   map_of ex_image_out ''thumbnailUrl'' = Some (JStr ''http://a/b.jpg'') \<and>
   map_of ex_image_out ''isPublic'' = None \<and>
   map_of ex_image_out ''likes'' = None \<and>
   map_of ex_image_out ''metadata'' = None \<and>
   dom (map_of ex_image_out) \<subseteq> set image_keys \<and>
   sanitizeItem example_rt ex_item_body = Some ex_item_out \<and>
   map_of ex_item_out ''category'' = None \<and>
   map_of ex_item_out ''isSaved'' = None \<and>
   map_of ex_item_out ''stats'' = None \<and>
   dom (map_of ex_item_out) \<subseteq> set item_keys"
proof -
  note t = sanitize_fields [where rt = example_rt]
  have a: "map_of ex_image_out ''description'' = None \<and>
     map_of ex_image_out ''title'' = present (JStr ''X'') \<and>
     map_of ex_image_out ''isPublic'' = None \<and>
     map_of ex_image_out ''likes'' = None \<and>
     map_of ex_image_out ''metadata'' = None \<and>
     dom (map_of ex_image_out) \<subseteq> set image_keys"
    using t [where arg = ex_image_body and out = ex_image_out, THEN conjunct1, THEN mp,
             OF ex_image_body_sanitized]
    by (simp add: Let_def default_body_def ex_image_body_def image_text_keys_def
        counter_keys_def asString_def numOrUndef_def present_def)
  have b: "map_of ex_item_out ''category'' = None \<and>
     map_of ex_item_out ''isSaved'' = None \<and>
     map_of ex_item_out ''stats'' = None \<and>
     dom (map_of ex_item_out) \<subseteq> set item_keys"
    using t [where arg = ex_item_body and out' = ex_item_out, THEN conjunct2, THEN mp,
             OF ex_item_body_sanitized]
    by (simp add: Let_def default_body_def ex_item_body_def item_text_keys_def present_def)
  have c: "map_of ex_image_out ''thumbnailUrl'' = Some (JStr ''http://a/b.jpg'')"
    by (simp add: ex_image_out_def)
  from a b c ex_image_body_sanitized ex_item_body_sanitized show ?thesis
    by simp
qed

text \<open>
  \<^verbatim>\<open>normTags\<close> returns a list on every input, the empty list when the input is neither a
  list nor a text: unlike \<^verbatim>\<open>asString\<close>, \<^verbatim>\<open>asBool\<close> and \<^verbatim>\<open>numOrUndef\<close> it never returns
  \<^verbatim>\<open>undefined\<close>. So \<^verbatim>\<open>set('tags', normTags(body.tags))\<close> writes \<^verbatim>\<open>tags\<close> for every
  body, the empty list when the body has no tags.
\<close>

lemma normTags_list:
  assumes "normTags rt tags = Some v"
  shows "\<exists>ts. v = JArr ts \<and> (\<not> isArray tags \<and> \<not> typeof_string tags \<longrightarrow> ts = [])"
  using assms
  by (cases tags) (auto simp: normTags_def nonempty_texts_def bind_eq_Some_conv)

lemma sanitizeImage_always_writes_tags:
  assumes "sanitizeImage rt arg = Some out"
  shows "\<exists>ts. map_of out ''tags'' = Some (JArr ts) \<and>
           (\<not> isArray (js_get (default_body arg) ''tags'') \<and>
            \<not> typeof_string (js_get (default_body arg) ''tags'') \<longrightarrow> ts = [])"
proof -
  from sanitizeImage_Some [OF assms, unfolded Let_def, THEN conjunct1]
  obtain v where v: "normTags rt (js_get (default_body arg) ''tags'') = Some v"
    "map_of out ''tags'' = present v"
    by blast
  from normTags_list [OF v(1)] v(2) show ?thesis
    by (auto simp: present_def)
qed

lemma sanitizeItem_always_writes_tags:
  assumes "sanitizeItem rt arg = Some out"
  shows "\<exists>ts. map_of out ''tags'' = Some (JArr ts) \<and>
           (\<not> isArray (js_get (default_body arg) ''tags'') \<and>
            \<not> typeof_string (js_get (default_body arg) ''tags'') \<longrightarrow> ts = [])"
proof -
  from sanitizeItem_Some [OF assms, unfolded Let_def, THEN conjunct1]
  obtain v where v: "normTags rt (js_get (default_body arg) ''tags'') = Some v"
    "map_of out ''tags'' = present v"
    by blast
  from normTags_list [OF v(1)] v(2) show ?thesis
    by (auto simp: present_def)
qed

text \<open>
  The merge-write of a map whose tags are the empty list over a stored document: the
  stored tags are replaced by the empty list, and every field that the map does not
  hold keeps its stored value.
\<close>

lemma merge_write_replaces_tags:
  assumes "db docId = Some stored" and "map_of upd ''tags'' = Some (JArr [])"
    and "distinct (map fst upd)"
  shows "\<exists>stored'. store_set_merge clock db docId upd docId = Some stored' \<and>
           map_of stored' ''tags'' = Some (JArr []) \<and>
           (\<forall>k. map_of upd k = None \<longrightarrow> map_of stored' k = map_of stored k)"
  using assms
  by (simp add: store_set_merge_def write_fields_lookup resolve_def)

text \<open>
  C1, at the request body \<^verbatim>\<open>{"title": "New"}\<close> of a partial update. The body has no
  \<^verbatim>\<open>tags\<close>, and both sanitize functions return a map that holds \<^verbatim>\<open>tags\<close>, the empty
  list, next to the title. The stored document has the tags \<^verbatim>\<open>red\<close> and \<^verbatim>\<open>blue\<close>; the
  merge-write of the returned map keeps \<^verbatim>\<open>uploadedBy\<close>, which the body does not carry
  either, and replaces the stored tags by the empty list.
\<close>

theorem sanitize_overwrites_stored_tags:
  "js_get ex_title_body ''tags'' = JUndef \<and>
   sanitizeImage example_rt ex_title_body = Some ex_title_out \<and>
   sanitizeItem example_rt ex_title_body = Some ex_title_out \<and>
   map_of ex_title_out ''tags'' = Some (JArr []) \<and>
   ex_tagged_docs ''d1'' = Some ex_tagged_doc \<and>
   map_of ex_tagged_doc ''tags'' = Some (JArr [JStr ''red'', JStr ''blue'']) \<and>
   store_set_merge (0, 0) ex_tagged_docs ''d1'' ex_title_out ''d1''
     = Some [(''title'', JStr ''New''), (''tags'', JArr []), (''uploadedBy'', JStr ''ann'')]"
proof -
  have a: "sanitizeImage example_rt ex_title_body = Some ex_title_out"
    by (simp add: sanitizeImage_def ex_title_body_def ex_title_out_def default_body_def Let_def
        set_text_def set_bool_def set_trimmed_def set_number_def set_tags_def
        set_thumbnailUrl_def set_metadata_def js_prop_def asString_def numOrUndef_def
        normTags_def js_coalesce_def set_field_def obj_set_def)
  have b: "sanitizeItem example_rt ex_title_body = Some ex_title_out"
    by (simp add: sanitizeItem_def ex_title_body_def ex_title_out_def default_body_def Let_def
        set_text_def set_bool_def set_trimmed_def set_tags_def set_content_def set_stats_def
        item_content_def incomingProducts_def js_prop_def js_oprop_def
        asString_def normTags_def set_field_def obj_set_def)
  have c: "store_set_merge (0, 0) ex_tagged_docs ''d1'' ex_title_out ''d1''
     = Some [(''title'', JStr ''New''), (''tags'', JArr []), (''uploadedBy'', JStr ''ann'')]"
    by (simp add: store_set_merge_def write_fields_def resolve_def ex_tagged_docs_def
        ex_tagged_doc_def ex_title_out_def obj_set_def)
  have d: "js_get ex_title_body ''tags'' = JUndef" "map_of ex_title_out ''tags'' = Some (JArr [])"
    "ex_tagged_docs ''d1'' = Some ex_tagged_doc"
    "map_of ex_tagged_doc ''tags'' = Some (JArr [JStr ''red'', JStr ''blue''])"
    by (simp_all add: ex_title_body_def ex_title_out_def ex_tagged_docs_def ex_tagged_doc_def)
  from a b c d show ?thesis
    by (intro conjI) assumption+
qed

section \<open>Properties of the AI card handlers\<close>

lemma distinct_obj_set: "distinct (map fst kvs) \<Longrightarrow> distinct (map fst (obj_set kvs k v))"
  by (simp add: obj_set_def distinct_update)

lemma update_text_distinct:
  "update_text rt body k acc = Some acc' \<Longrightarrow> distinct (map fst acc) \<Longrightarrow> distinct (map fst acc')"
  by (auto simp: update_text_def bind_eq_Some_conv distinct_obj_set split: if_splits)

lemma aicard_updates_form:
  assumes "aicard_updates rt stored body = Some u"
  shows "distinct (map fst u) \<and>
         map_of u ''createdAt'' = Some (js_or (js_get (JObj stored) ''createdAt'') JServerTimestamp)"
proof -
  from assms obtain a1 a2 a3 a4 a5 a6 where
    s: "update_text rt body ''title'' [] = Some a1" "update_text rt body ''image'' a1 = Some a2"
       "update_text rt body ''prompt'' a2 = Some a3" "update_text rt body ''link'' a3 = Some a4"
       "update_text rt body ''gender'' a4 = Some a5" "update_text rt body ''category'' a5 = Some a6"
    and u: "u = obj_set a6 ''createdAt'' (js_or (js_get (JObj stored) ''createdAt'') JServerTimestamp)"
    by (auto simp: aicard_updates_def bind_eq_Some_conv)
  have "distinct (map fst a1)" using update_text_distinct [OF s(1)] by simp
  then have "distinct (map fst a2)" by (rule update_text_distinct [OF s(2)])
  then have "distinct (map fst a3)" by (rule update_text_distinct [OF s(3)])
  then have "distinct (map fst a4)" by (rule update_text_distinct [OF s(4)])
  then have "distinct (map fst a5)" by (rule update_text_distinct [OF s(5)])
  then have "distinct (map fst a6)" by (rule update_text_distinct [OF s(6)])
  then show ?thesis
    by (simp add: u distinct_obj_set map_of_obj_set)
qed

lemma aicard_updates_empty_body: "aicard_updates rt stored (JObj []) \<noteq> None"
  by (simp add: aicard_updates_def update_text_def js_prop_def)

lemma update_aicard_createdAt:
  assumes "db cardId = Some stored"
  shows "let c = js_get (JObj stored) ''createdAt'';
             resp = fst (update_aicard rt clock db cardId body);
             db' = snd (update_aicard rt clock db cardId body)
         in (status resp = 200 \<or> status resp = 500) \<and>
            (status resp = 200 \<longrightarrow>
               (\<exists>stored'. db' cardId = Some stored' \<and>
                  map_of stored' ''createdAt''
                    = Some (if truthy c \<and> c \<noteq> JServerTimestamp then c
                            else JTimestamp (fst clock) (snd clock)))) \<and>
            (status resp = 500 \<longrightarrow> db' = db)"
proof (cases "aicard_updates rt stored body")
  case None
  with assms show ?thesis
    by (simp add: update_aicard_def respond_def Let_def)
next
  case (Some u)
  from aicard_updates_form [OF Some] have d: "distinct (map fst u)"
    and c: "map_of u ''createdAt'' = Some (js_or (js_get (JObj stored) ''createdAt'') JServerTimestamp)"
    by simp_all
  have "map_of (write_fields clock stored u) ''createdAt''
          = Some (resolve clock (js_or (js_get (JObj stored) ''createdAt'') JServerTimestamp))"
    by (simp add: write_fields_lookup [OF d] c)
  with assms Some show ?thesis
    by (simp add: update_aicard_def respond_def Let_def store_set_merge_def resolve_def js_or_def)
qed

lemma create_payload_createdAt:
  "aicard_payload rt body = Some p \<Longrightarrow>
   map_of (write_fields clock [] p) ''createdAt'' = Some (JTimestamp (fst clock) (snd clock))"
  by (auto simp: aicard_payload_def bind_eq_Some_conv write_fields_def obj_set_def resolve_def)

lemma create_aicard_createdAt:
  "let resp = fst (create_aicard rt clock newId db body);
       db' = snd (create_aicard rt clock newId db body)
   in (status resp = 201 \<longrightarrow>
         (\<exists>stored. db' newId = Some stored \<and>
            map_of stored ''createdAt'' = Some (JTimestamp (fst clock) (snd clock)))) \<and>
      (status resp \<noteq> 201 \<longrightarrow> db' = db)"
proof (cases "aicard_payload rt body")
  case None
  then show ?thesis by (simp add: create_aicard_def respond_def Let_def)
next
  case (Some p)
  from create_payload_createdAt [OF Some, of clock] Some show ?thesis
    by (simp add: create_aicard_def respond_def Let_def store_add_def)
qed

lemma text_field_ignores_createdAt:
  "k \<noteq> ''createdAt'' \<Longrightarrow>
   text_field rt (JObj (obj_set kvs ''createdAt'' v)) k dflt = text_field rt (JObj kvs) k dflt"
  by (simp add: text_field_def js_prop_def map_of_obj_set)

lemma create_aicard_ignores_createdAt:
  "create_aicard rt clock newId db (JObj (obj_set kvs ''createdAt'' v))
     = create_aicard rt clock newId db (JObj kvs)"
  by (simp add: create_aicard_def aicard_payload_def text_field_ignores_createdAt)


text \<open>
  C6. A created card is stored with the store's own timestamp as \<^verbatim>\<open>createdAt\<close>, and the
  handler does not read \<^verbatim>\<open>createdAt\<close> of the body: with any value written under that key of
  the body, the response and the collection are the same. (A request that is refused, with
  400 or 500, stores nothing.) An update of an existing card answers 200 or 500; after a
  200 the stored \<^verbatim>\<open>createdAt\<close> is the one stored before, verbatim, when there was one (a
  timestamp, a text that is not empty: any truthy value), and the store's timestamp when
  there was none (the field absent, or a falsy value such as \<^verbatim>\<open>null\<close>); after a 500
  nothing is stored. An update with the empty body answers 200. A stored document never
  holds the write-time marker itself.
\<close>

theorem aicard_createdAt:
  "(let resp = fst (create_aicard rt clock newId db body);
        db' = snd (create_aicard rt clock newId db body)
    in (status resp = 201 \<longrightarrow>
          (\<exists>stored. db' newId = Some stored \<and>
             map_of stored ''createdAt'' = Some (JTimestamp (fst clock) (snd clock)))) \<and>
       (status resp \<noteq> 201 \<longrightarrow> db' = db)) \<and>
   create_aicard rt clock newId db (JObj (obj_set kvs ''createdAt'' v))
     = create_aicard rt clock newId db (JObj kvs) \<and>
   (db cardId = Some stored \<longrightarrow>
      (let c = js_get (JObj stored) ''createdAt'';
           resp = fst (update_aicard rt clock db cardId body);
           db' = snd (update_aicard rt clock db cardId body)
       in (status resp = 200 \<or> status resp = 500) \<and>
          (status resp = 200 \<longrightarrow>
             (\<exists>stored'. db' cardId = Some stored' \<and>
                map_of stored' ''createdAt''
                  = Some (if truthy c \<and> c \<noteq> JServerTimestamp then c
                          else JTimestamp (fst clock) (snd clock)))) \<and>
          (status resp = 500 \<longrightarrow> db' = db))) \<and>
   (db cardId = Some stored \<longrightarrow>
      status (fst (update_aicard rt clock db cardId (JObj []))) = 200)"
proof (intro conjI impI)
  show "let resp = fst (create_aicard rt clock newId db body);
        db' = snd (create_aicard rt clock newId db body)
    in (status resp = 201 \<longrightarrow>
          (\<exists>stored. db' newId = Some stored \<and>
             map_of stored ''createdAt'' = Some (JTimestamp (fst clock) (snd clock)))) \<and>
       (status resp \<noteq> 201 \<longrightarrow> db' = db)"
    by (rule create_aicard_createdAt)
next
  show "create_aicard rt clock newId db (JObj (obj_set kvs ''createdAt'' v))
     = create_aicard rt clock newId db (JObj kvs)"
    by (rule create_aicard_ignores_createdAt)
next
  assume "db cardId = Some stored"
  then show "let c = js_get (JObj stored) ''createdAt'';
           resp = fst (update_aicard rt clock db cardId body);
           db' = snd (update_aicard rt clock db cardId body)
       in (status resp = 200 \<or> status resp = 500) \<and>
          (status resp = 200 \<longrightarrow>
             (\<exists>stored'. db' cardId = Some stored' \<and>
                map_of stored' ''createdAt''
                  = Some (if truthy c \<and> c \<noteq> JServerTimestamp then c
                          else JTimestamp (fst clock) (snd clock)))) \<and>
          (status resp = 500 \<longrightarrow> db' = db)"
    by (rule update_aicard_createdAt)
next
  assume "db cardId = Some stored"
  with aicard_updates_empty_body [of rt stored]
  show "status (fst (update_aicard rt clock db cardId (JObj []))) = 200"
    by (auto simp: update_aicard_def respond_def Let_def)
qed

lemma ex_create_status:
  "status (fst (create_aicard example_rt (1700000000, 0) ''n1'' Map.empty ex_card_body)) = 201"
  by (simp add: create_aicard_def aicard_payload_def text_field_def js_prop_def js_or_def
      ex_card_body_def trim_def is_ws_def respond_def Let_def)

lemma ex_update_status:
  "status (fst (update_aicard example_rt (1700000000, 0) ex_cards ''k1'' (JObj []))) = 200"
  "status (fst (update_aicard example_rt (1700000000, 0) ex_cards ''k2'' (JObj []))) = 200"
  by (simp_all add: update_aicard_def aicard_updates_def update_text_def js_prop_def
      ex_cards_def respond_def Let_def)

theorem aicard_createdAt_witness:
  "status (fst (create_aicard example_rt (1700000000, 0) ''n1'' Map.empty ex_card_body)) = 201 \<and>
   (\<exists>stored.
      snd (create_aicard example_rt (1700000000, 0) ''n1'' Map.empty ex_card_body) ''n1''
        = Some stored \<and>
      map_of stored ''createdAt'' = Some (JTimestamp 1700000000 0)) \<and>
   ex_cards ''k1'' = Some [(''title'', JStr ''T''), (''createdAt'', JStr ''2020-01-01T00:00:00Z'')] \<and>
   status (fst (update_aicard example_rt (1700000000, 0) ex_cards ''k1'' (JObj []))) = 200 \<and>
   (\<exists>stored'.
      snd (update_aicard example_rt (1700000000, 0) ex_cards ''k1'' (JObj [])) ''k1''
        = Some stored' \<and>
      map_of stored' ''createdAt'' = Some (JStr ''2020-01-01T00:00:00Z'')) \<and>
   ex_cards ''k2'' = Some [(''title'', JStr ''U'')] \<and>
   (\<exists>stored'.
      snd (update_aicard example_rt (1700000000, 0) ex_cards ''k2'' (JObj [])) ''k2''
        = Some stored' \<and>
      map_of stored' ''createdAt'' = Some (JTimestamp 1700000000 0))"
proof -
  note t = aicard_createdAt [where rt = example_rt and clock = "(1700000000, 0)"]
  have k1: "ex_cards ''k1''
              = Some [(''title'', JStr ''T''), (''createdAt'', JStr ''2020-01-01T00:00:00Z'')]"
    and k2: "ex_cards ''k2'' = Some [(''title'', JStr ''U'')]"
    by (simp_all add: ex_cards_def)
  have a: "\<exists>stored.
      snd (create_aicard example_rt (1700000000, 0) ''n1'' Map.empty ex_card_body) ''n1''
        = Some stored \<and>
      map_of stored ''createdAt'' = Some (JTimestamp 1700000000 0)"
    using t [where newId = "''n1''" and db = Map.empty and body = ex_card_body, THEN conjunct1]
      ex_create_status
    by (simp add: Let_def)
  have b: "\<exists>stored'.
      snd (update_aicard example_rt (1700000000, 0) ex_cards ''k1'' (JObj [])) ''k1''
        = Some stored' \<and>
      map_of stored' ''createdAt'' = Some (JStr ''2020-01-01T00:00:00Z'')"
    using t [where db = ex_cards and cardId = "''k1''" and body = "JObj []"
               and stored = "[(''title'', JStr ''T''), (''createdAt'', JStr ''2020-01-01T00:00:00Z'')]",
             THEN conjunct2, THEN conjunct2, THEN conjunct1, THEN mp, OF k1]
      ex_update_status(1)
    by (simp add: Let_def)
  have c: "\<exists>stored'.
      snd (update_aicard example_rt (1700000000, 0) ex_cards ''k2'' (JObj [])) ''k2''
        = Some stored' \<and>
      map_of stored' ''createdAt'' = Some (JTimestamp 1700000000 0)"
    using t [where db = ex_cards and cardId = "''k2''" and body = "JObj []"
               and stored = "[(''title'', JStr ''U'')]",
             THEN conjunct2, THEN conjunct2, THEN conjunct1, THEN mp, OF k2]
      ex_update_status(2)
    by (simp add: Let_def)
  from a b c k1 k2 ex_create_status ex_update_status(1) show ?thesis
    by (intro conjI) assumption+
qed

section \<open>Properties of concurrent appends\<close>

lemma group_items_write:
  "db g = Some stored \<Longrightarrow>
   group_items (db(g \<mapsto> obj_set stored ''items'' (JArr xs))) g = xs"
  by (simp add: group_items_def map_of_obj_set)

lemma ensure_exists_step:
  "\<exists>db'. apply_op clock db (EnsureExists g) = Some db' \<and> db' g \<noteq> None \<and>
         group_items db' g = group_items db g"
  by (cases "db g") (simp_all add: store_set_merge_def write_fields_def group_items_def)

lemma array_union_step:
  assumes "db g \<noteq> None"
  shows "\<exists>db'. apply_op clock db (ArrayUnion g x) = Some db' \<and> db' g \<noteq> None \<and>
           x \<in> set (group_items db' g) \<and> set (group_items db g) \<subseteq> set (group_items db' g)"
proof -
  from assms obtain stored where s: "db g = Some stored" by auto
  define xs where "xs = (case array_union (js_get (JObj stored) ''items'') x of JArr ys \<Rightarrow> ys | _ \<Rightarrow> [])"
  have u: "array_union (js_get (JObj stored) ''items'') x = JArr xs"
    by (cases "js_get (JObj stored) ''items''") (simp_all add: array_union_def xs_def)
  have x: "x \<in> set xs" and sub: "set (group_items db g) \<subseteq> set xs"
    using s u by (cases "js_get (JObj stored) ''items''";
        auto simp: array_union_def group_items_def split: if_splits)+
  have "apply_op clock db (ArrayUnion g x)
          = Some (db(g \<mapsto> obj_set stored ''items'' (JArr xs)))"
    using s u by (simp add: store_update_def write_fields_def resolve_def)
  with s x sub show ?thesis
    by (simp add: group_items_write)
qed

text \<open>
  The second half of an append, alone: once the document exists the array-union
  succeeds, and the call answers with its item, which is then in the list.
\<close>

lemma serve_union:
  assumes "db g \<noteq> None"
  shows "\<exists>db'. serve clock db (Await (ArrayUnion g x) (Reply (respond 200 x)) e)
                 = (respond 200 x, db') \<and>
           x \<in> set (group_items db' g) \<and> set (group_items db g) \<subseteq> set (group_items db' g)"
proof -
  from array_union_step [where db = db and g = g and clock = clock and x = x, OF assms]
  obtain db' where "apply_op clock db (ArrayUnion g x) = Some db'"
    "x \<in> set (group_items db' g)" "set (group_items db g) \<subseteq> set (group_items db' g)"
    by blast
  then show ?thesis
    by (simp del: apply_op.simps)
qed

lemma serve_append:
  "\<exists>db'. serve clock db
            (Await (EnsureExists g) (Await (ArrayUnion g x) (Reply (respond 200 x)) e) e')
            = (respond 200 x, db') \<and>
         x \<in> set (group_items db' g) \<and> set (group_items db g) \<subseteq> set (group_items db' g)"
proof -
  from ensure_exists_step [of clock db g] obtain db1 where
    e: "apply_op clock db (EnsureExists g) = Some db1" "db1 g \<noteq> None"
       "group_items db1 g = group_items db g"
    by blast
  from serve_union [where db = db1 and g = g and clock = clock and x = x and e = e, OF e(2)]
  obtain db' where
    "serve clock db1 (Await (ArrayUnion g x) (Reply (respond 200 x)) e) = (respond 200 x, db')"
    "x \<in> set (group_items db' g)" "set (group_items db1 g) \<subseteq> set (group_items db' g)"
    by blast
  with e show ?thesis
    by (simp del: apply_op.simps)
qed

text \<open>
  Two appends at the same time, by the stage that each has reached: \<open>Reply\<close> when its
  item is in the list, the array-union when the document exists, the merge-write at the
  start. An operation of one call never undoes what the other has reached, because the
  document stays and the list only grows.
\<close>

lemma landed_done_union:
  assumes "db g \<noteq> None" and "a \<in> set (group_items db g)"
  shows "both_landed g a b
           (serve_both clock db (Reply (respond 200 a))
              (Await (ArrayUnion g b) (Reply (respond 200 b)) e))"
proof -
  from serve_union [where db = db and g = g and clock = clock and x = b and e = e, OF assms(1)]
  obtain db' where
    "serve clock db (Await (ArrayUnion g b) (Reply (respond 200 b)) e) = (respond 200 b, db')"
    "b \<in> set (group_items db' g)" "set (group_items db g) \<subseteq> set (group_items db' g)"
    by blast
  with assms(2) show ?thesis
    by (auto simp: both_landed_def simp del: serve.simps)
qed

lemma landed_union_done:
  assumes "db g \<noteq> None" and "b \<in> set (group_items db g)"
  shows "both_landed g a b
           (serve_both clock db (Await (ArrayUnion g a) (Reply (respond 200 a)) e)
              (Reply (respond 200 b)))"
proof -
  from serve_union [where db = db and g = g and clock = clock and x = a and e = e, OF assms(1)]
  obtain db' where
    "serve clock db (Await (ArrayUnion g a) (Reply (respond 200 a)) e) = (respond 200 a, db')"
    "a \<in> set (group_items db' g)" "set (group_items db g) \<subseteq> set (group_items db' g)"
    by blast
  with assms(2) show ?thesis
    by (auto simp: both_landed_def simp del: serve.simps)
qed

lemma landed_done_append:
  assumes "a \<in> set (group_items db g)"
  shows "both_landed g a b
           (serve_both clock db (Reply (respond 200 a))
              (Await (EnsureExists g) (Await (ArrayUnion g b) (Reply (respond 200 b)) e) e'))"
proof -
  from serve_append [of clock db g b e e']
  obtain db' where
    "serve clock db
       (Await (EnsureExists g) (Await (ArrayUnion g b) (Reply (respond 200 b)) e) e')
       = (respond 200 b, db')"
    "b \<in> set (group_items db' g)" "set (group_items db g) \<subseteq> set (group_items db' g)"
    by blast
  with assms show ?thesis
    by (auto simp: both_landed_def simp del: serve.simps)
qed

lemma landed_append_done:
  assumes "b \<in> set (group_items db g)"
  shows "both_landed g a b
           (serve_both clock db
              (Await (EnsureExists g) (Await (ArrayUnion g a) (Reply (respond 200 a)) e) e')
              (Reply (respond 200 b)))"
proof -
  from serve_append [of clock db g a e e']
  obtain db' where
    "serve clock db
       (Await (EnsureExists g) (Await (ArrayUnion g a) (Reply (respond 200 a)) e) e')
       = (respond 200 a, db')"
    "a \<in> set (group_items db' g)" "set (group_items db g) \<subseteq> set (group_items db' g)"
    by blast
  with assms show ?thesis
    by (auto simp: both_landed_def simp del: serve.simps)
qed

lemma both_landed_append:
  "both_landed g a b xs \<Longrightarrow> both_landed g a b ys \<Longrightarrow> both_landed g a b (xs @ ys)"
  by (simp add: both_landed_def)

lemma landed_union_union:
  assumes "db g \<noteq> None"
  shows "both_landed g a b
           (serve_both clock db (Await (ArrayUnion g a) (Reply (respond 200 a)) e)
              (Await (ArrayUnion g b) (Reply (respond 200 b)) e))"
proof -
  from array_union_step [where db = db and g = g and clock = clock and x = a, OF assms]
  obtain db1 where
    s1: "apply_op clock db (ArrayUnion g a) = Some db1" "db1 g \<noteq> None"
        "a \<in> set (group_items db1 g)"
    by blast
  from array_union_step [where db = db and g = g and clock = clock and x = b, OF assms]
  obtain db2 where
    s2: "apply_op clock db (ArrayUnion g b) = Some db2" "db2 g \<noteq> None"
        "b \<in> set (group_items db2 g)"
    by blast
  have l: "both_landed g a b
          (serve_both clock db1 (Reply (respond 200 a))
             (Await (ArrayUnion g b) (Reply (respond 200 b)) e))"
    using s1(2,3) by (rule landed_done_union)
  have r: "both_landed g a b
          (serve_both clock db2 (Await (ArrayUnion g a) (Reply (respond 200 a)) e)
             (Reply (respond 200 b)))"
    using s2(2,3) by (rule landed_union_done)
  have "serve_both clock db (Await (ArrayUnion g a) (Reply (respond 200 a)) e)
          (Await (ArrayUnion g b) (Reply (respond 200 b)) e)
        = serve_both clock db1 (Reply (respond 200 a))
            (Await (ArrayUnion g b) (Reply (respond 200 b)) e)
          @ serve_both clock db2 (Await (ArrayUnion g a) (Reply (respond 200 a)) e)
              (Reply (respond 200 b))"
    using s1(1) s2(1) by (simp only: serve_both.simps(3) option.case)
  with both_landed_append [OF l r] show ?thesis
    by (simp only:)
qed

lemma landed_append_union:
  assumes "db g \<noteq> None"
  shows "both_landed g a b
           (serve_both clock db
              (Await (EnsureExists g) (Await (ArrayUnion g a) (Reply (respond 200 a)) e) e)
              (Await (ArrayUnion g b) (Reply (respond 200 b)) e))"
proof -
  from ensure_exists_step [of clock db g] obtain db1 where
    s1: "apply_op clock db (EnsureExists g) = Some db1" "db1 g \<noteq> None"
    by blast
  from array_union_step [where db = db and g = g and clock = clock and x = b, OF assms]
  obtain db2 where
    s2: "apply_op clock db (ArrayUnion g b) = Some db2" "db2 g \<noteq> None"
        "b \<in> set (group_items db2 g)"
    by blast
  have l: "both_landed g a b
          (serve_both clock db1 (Await (ArrayUnion g a) (Reply (respond 200 a)) e)
             (Await (ArrayUnion g b) (Reply (respond 200 b)) e))"
    using s1(2) by (rule landed_union_union)
  have r: "both_landed g a b
          (serve_both clock db2
             (Await (EnsureExists g) (Await (ArrayUnion g a) (Reply (respond 200 a)) e) e)
             (Reply (respond 200 b)))"
    using s2(3) by (rule landed_append_done)
  have "serve_both clock db
          (Await (EnsureExists g) (Await (ArrayUnion g a) (Reply (respond 200 a)) e) e)
          (Await (ArrayUnion g b) (Reply (respond 200 b)) e)
        = serve_both clock db1 (Await (ArrayUnion g a) (Reply (respond 200 a)) e)
            (Await (ArrayUnion g b) (Reply (respond 200 b)) e)
          @ serve_both clock db2
              (Await (EnsureExists g) (Await (ArrayUnion g a) (Reply (respond 200 a)) e) e)
              (Reply (respond 200 b))"
    using s1(1) s2(1) by (simp only: serve_both.simps(3) option.case)
  with both_landed_append [OF l r] show ?thesis
    by (simp only:)
qed

lemma landed_union_append:
  assumes "db g \<noteq> None"
  shows "both_landed g a b
           (serve_both clock db
              (Await (ArrayUnion g a) (Reply (respond 200 a)) e)
              (Await (EnsureExists g) (Await (ArrayUnion g b) (Reply (respond 200 b)) e) e))"
proof -
  from array_union_step [where db = db and g = g and clock = clock and x = a, OF assms]
  obtain db1 where
    s1: "apply_op clock db (ArrayUnion g a) = Some db1" "db1 g \<noteq> None"
        "a \<in> set (group_items db1 g)"
    by blast
  from ensure_exists_step [of clock db g] obtain db2 where
    s2: "apply_op clock db (EnsureExists g) = Some db2" "db2 g \<noteq> None"
    by blast
  have l: "both_landed g a b
          (serve_both clock db1 (Reply (respond 200 a))
             (Await (EnsureExists g) (Await (ArrayUnion g b) (Reply (respond 200 b)) e) e))"
    using s1(3) by (rule landed_done_append)
  have r: "both_landed g a b
          (serve_both clock db2 (Await (ArrayUnion g a) (Reply (respond 200 a)) e)
             (Await (ArrayUnion g b) (Reply (respond 200 b)) e))"
    using s2(2) by (rule landed_union_union)
  have "serve_both clock db
          (Await (ArrayUnion g a) (Reply (respond 200 a)) e)
          (Await (EnsureExists g) (Await (ArrayUnion g b) (Reply (respond 200 b)) e) e)
        = serve_both clock db1 (Reply (respond 200 a))
            (Await (EnsureExists g) (Await (ArrayUnion g b) (Reply (respond 200 b)) e) e)
          @ serve_both clock db2 (Await (ArrayUnion g a) (Reply (respond 200 a)) e)
              (Await (ArrayUnion g b) (Reply (respond 200 b)) e)"
    using s1(1) s2(1) by (simp only: serve_both.simps(3) option.case)
  with both_landed_append [OF l r] show ?thesis
    by (simp only:)
qed

lemma landed_append_append:
  "both_landed g a b
     (serve_both clock db
        (Await (EnsureExists g) (Await (ArrayUnion g a) (Reply (respond 200 a)) e) e)
        (Await (EnsureExists g) (Await (ArrayUnion g b) (Reply (respond 200 b)) e) e))"
proof -
  from ensure_exists_step [of clock db g] obtain db1 where
    s1: "apply_op clock db (EnsureExists g) = Some db1" "db1 g \<noteq> None"
    by blast
  have l: "both_landed g a b
          (serve_both clock db1 (Await (ArrayUnion g a) (Reply (respond 200 a)) e)
             (Await (EnsureExists g) (Await (ArrayUnion g b) (Reply (respond 200 b)) e) e))"
    using s1(2) by (rule landed_union_append)
  have r: "both_landed g a b
          (serve_both clock db1
             (Await (EnsureExists g) (Await (ArrayUnion g a) (Reply (respond 200 a)) e) e)
             (Await (ArrayUnion g b) (Reply (respond 200 b)) e))"
    using s1(2) by (rule landed_append_union)
  have "serve_both clock db
          (Await (EnsureExists g) (Await (ArrayUnion g a) (Reply (respond 200 a)) e) e)
          (Await (EnsureExists g) (Await (ArrayUnion g b) (Reply (respond 200 b)) e) e)
        = serve_both clock db1 (Await (ArrayUnion g a) (Reply (respond 200 a)) e)
            (Await (EnsureExists g) (Await (ArrayUnion g b) (Reply (respond 200 b)) e) e)
          @ serve_both clock db1
              (Await (EnsureExists g) (Await (ArrayUnion g a) (Reply (respond 200 a)) e) e)
              (Await (ArrayUnion g b) (Reply (respond 200 b)) e)"
    using s1(1) by (simp only: serve_both.simps(3) option.case)
  with both_landed_append [OF l r] show ?thesis
    by (simp only:)
qed

lemma new_item_value:
  "\<not> nullish body \<Longrightarrow>
   new_item now body
     = Some (JObj (obj_set (spread [] body) ''id'' (js_or (js_get body ''id'') (JStr now))))"
  by (simp add: new_item_def js_prop_def)

text \<open>
  C9. Two append calls to one group are served at the same time, with request bodies
  that are not \<^verbatim>\<open>null\<close>. The item of a call is its body with the \<^verbatim>\<open>id\<close> of the body, or
  the time of the call when the body has none. Each call sends its merge-write of the
  empty map and then its array-union, and the store may apply the operations of the two
  calls in any order that keeps the order of each call. In every such order both calls
  are answered with their items, and the final \<^verbatim>\<open>items\<close> list of the group holds both
  items: no append is lost, whatever the collection held before.
\<close>

theorem concurrent_appends_keep_both:
  assumes "\<not> nullish body1" and "\<not> nullish body2"
    and "a = JObj (obj_set (spread [] body1) ''id'' (js_or (js_get body1 ''id'') (JStr now1)))"
    and "b = JObj (obj_set (spread [] body2) ''id'' (js_or (js_get body2 ''id'') (JStr now2)))"
  shows "serve_both clock db (append_item now1 g body1) (append_item now2 g body2) \<noteq> [] \<and>
         list_all (\<lambda>((r1, r2), db').
             r1 = respond 200 a \<and> r2 = respond 200 b \<and>
             a \<in> set (group_items db' g) \<and> b \<in> set (group_items db' g))
           (serve_both clock db (append_item now1 g body1) (append_item now2 g body2))"
proof -
  have "new_item now1 body1 = Some a" "new_item now2 body2 = Some b"
    using assms by (simp_all add: new_item_value)
  then have eq: "serve_both clock db (append_item now1 g body1) (append_item now2 g body2)
      = serve_both clock db
          (Await (EnsureExists g) (Await (ArrayUnion g a) (Reply (respond 200 a))
             (Reply (respond 500 (error_body ''Create failed''))))
             (Reply (respond 500 (error_body ''Create failed''))))
          (Await (EnsureExists g) (Await (ArrayUnion g b) (Reply (respond 200 b))
             (Reply (respond 500 (error_body ''Create failed''))))
             (Reply (respond 500 (error_body ''Create failed''))))"
    by (simp add: append_item_def Let_def)
  have "both_landed g a b
          (serve_both clock db (append_item now1 g body1) (append_item now2 g body2))"
    unfolding eq by (rule landed_append_append)
  then show ?thesis
    unfolding both_landed_def .
qed

theorem concurrent_appends_keep_both_witness:
  "\<not> nullish ex_body_A \<and> \<not> nullish ex_body_B \<and>
   ex_item_A = JObj (obj_set (spread [] ex_body_A) ''id''
                       (js_or (js_get ex_body_A ''id'') (JStr ''1700000000001''))) \<and>
   ex_item_B = JObj (obj_set (spread [] ex_body_B) ''id''
                       (js_or (js_get ex_body_B ''id'') (JStr ''1700000000002''))) \<and>
   serve_both (0, 0) ex_groups (append_item ''1700000000001'' ''g1'' ex_body_A)
     (append_item ''1700000000002'' ''g1'' ex_body_B) \<noteq> [] \<and>
   list_all (\<lambda>((r1, r2), db').
       r1 = respond 200 ex_item_A \<and> r2 = respond 200 ex_item_B \<and>
       ex_item_A \<in> set (group_items db' ''g1'') \<and> ex_item_B \<in> set (group_items db' ''g1''))
     (serve_both (0, 0) ex_groups (append_item ''1700000000001'' ''g1'' ex_body_A)
        (append_item ''1700000000002'' ''g1'' ex_body_B))"
proof -
  have h1: "\<not> nullish ex_body_A" and h2: "\<not> nullish ex_body_B"
    by (simp_all add: ex_body_A_def ex_body_B_def)
  have h3: "ex_item_A = JObj (obj_set (spread [] ex_body_A) ''id''
                       (js_or (js_get ex_body_A ''id'') (JStr ''1700000000001'')))"
    by (simp add: ex_item_A_def ex_body_A_def spread_def obj_set_def js_or_def)
  have h4: "ex_item_B = JObj (obj_set (spread [] ex_body_B) ''id''
                       (js_or (js_get ex_body_B ''id'') (JStr ''1700000000002'')))"
    by (simp add: ex_item_B_def ex_body_B_def spread_def obj_set_def js_or_def)
  note t = concurrent_appends_keep_both
             [where clock = "(0, 0)" and db = ex_groups and g = "''g1''", OF h1 h2 h3 h4]
  from h1 h2 h3 h4 t [THEN conjunct1] t [THEN conjunct2] show ?thesis
    by (intro conjI) assumption+
qed

text \<open>
  The six orders of the example, by the list of the group at the end: the two new items
  come after the stored ones, in the order in which the store applied the two
  array-unions.
\<close>

lemma ex_concurrent_outcomes:
  "map (\<lambda>(rs, db'). group_items db' ''g1'')
     (serve_both (0, 0) ex_groups (append_item ''1700000000001'' ''g1'' ex_body_A)
        (append_item ''1700000000002'' ''g1'' ex_body_B))
   = [ex_items @ [ex_item_A, ex_item_B], ex_items @ [ex_item_A, ex_item_B],
      ex_items @ [ex_item_B, ex_item_A], ex_items @ [ex_item_A, ex_item_B],
      ex_items @ [ex_item_B, ex_item_A], ex_items @ [ex_item_B, ex_item_A]]"
  by (simp add: append_item_def new_item_def js_prop_def ex_body_A_def ex_body_B_def
      ex_item_A_def ex_item_B_def ex_groups_def ex_group_def ex_items_def Let_def
      spread_def obj_set_def js_or_def store_set_merge_def store_update_def write_fields_def
      resolve_def array_union_def group_items_def)

text \<open>
  One append call alone answers with its item, and the item is in the list afterwards.
  A call whose body is \<^verbatim>\<open>null\<close> or absent fails before it sends anything to the store.
\<close>

lemma append_item_alone:
  assumes "\<not> nullish body"
    and "item = JObj (obj_set (spread [] body) ''id'' (js_or (js_get body ''id'') (JStr now)))"
  shows "\<exists>db'. serve clock db (append_item now g body) = (respond 200 item, db') \<and>
           item \<in> set (group_items db' g) \<and> set (group_items db g) \<subseteq> set (group_items db' g)"
proof -
  have "new_item now body = Some item"
    using assms by (simp add: new_item_value)
  then have "serve clock db (append_item now g body)
      = serve clock db
          (Await (EnsureExists g) (Await (ArrayUnion g item) (Reply (respond 200 item))
             (Reply (respond 500 (error_body ''Create failed''))))
             (Reply (respond 500 (error_body ''Create failed''))))"
    by (simp add: append_item_def Let_def)
  with serve_append [of clock db g item] show ?thesis
    by (simp only:)
qed

lemma append_item_null_body:
  "nullish body \<Longrightarrow>
   serve clock db (append_item now g body) = (respond 500 (error_body ''Create failed''), db)"
  by (simp add: append_item_def new_item_def js_prop_def)

end
